theory Spec2Isabelle
  imports Complex_Main
begin

section \<open>Arrays\<close>

text \<open>
  The script \<^verbatim>\<open>examples/slog.py\<close> computes with numpy and jax arrays of floating-point
  numbers. Array entries are modelled as real numbers: infinities and nan of IEEE
  arithmetic are not represented, and the operations are exact, except in
  \<open>gaussian_mixture_stats\<close>, where the rounding of every operation is written out (as
  a parameter, see \<open>binary64\<close> below). A one-dimensional array is a list; a
  two-dimensional array keeps its number of columns beside its rows, so that the shape
  of an array with no rows is still known.
\<close>

type_synonym vec = "real list"

record matrix =
  ncols :: nat
  rows :: "real list list"

datatype error = AssertionError | IndexError | ValueError | NonReal

definition nrows :: "matrix \<Rightarrow> nat" where
  "nrows M = length (rows M)"

definition shape :: "matrix \<Rightarrow> nat \<times> nat" where
  "shape M = (nrows M, ncols M)"

definition wf_matrix :: "matrix \<Rightarrow> bool" where
  "wf_matrix M = list_all (\<lambda>r. length r = ncols M) (rows M)"

definition entry :: "matrix \<Rightarrow> nat \<Rightarrow> nat \<Rightarrow> real" where
  "entry M i j = rows M ! i ! j"

definition map_matrix :: "(real \<Rightarrow> real) \<Rightarrow> matrix \<Rightarrow> matrix" where
  "map_matrix f M = \<lparr>ncols = ncols M, rows = map (map f) (rows M)\<rparr>"

text \<open>\<^verbatim>\<open>A + B\<close> for two arrays of one shape: entry by entry.\<close>

definition madd :: "matrix \<Rightarrow> matrix \<Rightarrow> matrix" where
  "madd A B = \<lparr>ncols = ncols A, rows = map2 (map2 (+)) (rows A) (rows B)\<rparr>"

text \<open>\<^verbatim>\<open>np.eye(n)\<close>.\<close>

definition eye :: "nat \<Rightarrow> matrix" where
  "eye n = \<lparr>ncols = n,
     rows = map (\<lambda>i. map (\<lambda>j. if i = j then 1 else 0) [0..<n]) [0..<n]\<rparr>"

text \<open>\<^verbatim>\<open>np.square\<close> of an array.\<close>

definition square :: "matrix \<Rightarrow> matrix" where
  "square M = map_matrix (\<lambda>v. v * v) M"

section \<open>The kernel\<close>

text \<open>
  \<^verbatim>\<open>def dot(X, Z): return np.dot(X, Z[..., None])[..., 0]\<close>

  For \<open>X\<close> of shape \<open>(n, p)\<close> and \<open>Z\<close> of shape \<open>(m, p)\<close> the array
  \<^verbatim>\<open>Z[..., None]\<close> has shape \<open>(m, p, 1)\<close>; \<^verbatim>\<open>np.dot\<close> sums over the last axis of
  \<open>X\<close> and the last but one of \<^verbatim>\<open>Z[..., None]\<close>, so the result has shape \<open>(n, m)\<close>
  and holds the inner products of the rows. numpy raises ValueError when the two summed
  axes differ in length.
\<close>

definition inner :: "vec \<Rightarrow> vec \<Rightarrow> real" where
  "inner x z = sum_list (map2 (*) x z)"

definition dot :: "matrix \<Rightarrow> matrix \<Rightarrow> error + matrix" where
  "dot X Z =
     (if ncols X \<noteq> ncols Z then Inl ValueError
      else Inr \<lparr>ncols = nrows Z,
                rows = map (\<lambda>x. map (\<lambda>z. inner x z) (rows Z)) (rows X)\<rparr>)"

text \<open>
  \<^verbatim>\<open>
  def kernel(X, Z, eta1, eta2, c, jitter=1.0e-6):
      eta1sq = np.square(eta1)
      eta2sq = np.square(eta2)
      k1 = 0.5 * eta2sq * np.square(1.0 + dot(X, Z))
      k2 = -0.5 * eta2sq * dot(np.square(X), np.square(Z))
      k3 = (eta1sq - eta2sq) * dot(X, Z)
      k4 = np.square(c) - 0.5 * eta2sq
      if X.shape == Z.shape:
          k4 += jitter * np.eye(X.shape[0])
      return k1 + k2 + k3 + k4
  \<close>
  \<open>k4\<close> is a scalar, added to every entry, unless the shapes are equal: then it is the
  square array \<open>k4 + jitter * eye\<close>.
\<close>

definition default_jitter :: real where
  "default_jitter = 1 / 10 ^ 6"

definition kernel :: "matrix \<Rightarrow> matrix \<Rightarrow> real \<Rightarrow> real \<Rightarrow> real \<Rightarrow> real \<Rightarrow> error + matrix" where
  "kernel X Z eta1 eta2 c jitter =
     (let eta1sq = eta1 * eta1;
          eta2sq = eta2 * eta2
      in case dot X Z of
           Inl e \<Rightarrow> Inl e
         | Inr d \<Rightarrow>
             (let k1 = map_matrix (\<lambda>v. 0.5 * eta2sq * ((1 + v) * (1 + v))) d
              in case dot (square X) (square Z) of
                   Inl e \<Rightarrow> Inl e
                 | Inr dsq \<Rightarrow>
                     (let k2 = map_matrix (\<lambda>v. - 0.5 * eta2sq * v) dsq;
                          k3 = map_matrix (\<lambda>v. (eta1sq - eta2sq) * v) d;
                          k4 = c * c - 0.5 * eta2sq
                      in if shape X = shape Z
                         then Inr (madd (madd (madd k1 k2) k3)
                                (map_matrix (\<lambda>v. k4 + jitter * v) (eye (nrows X))))
                         else Inr (map_matrix (\<lambda>v. v + k4) (madd (madd k1 k2) k3)))))"

section \<open>Rounding to 64-bit floating-point numbers\<close>





section \<open>Numpy operations used after the kernel\<close>

text \<open>
  A step that raises, or whose numpy value is not a real number, ends the computation:
  \<open>and_then\<close> passes the first error on. \<open>NonReal\<close> stands for the places where
  numpy goes on with nan or an infinity (a division by zero, the mean of an empty array,
  the square root of a negative number); the model says nothing about what follows them.
\<close>

definition and_then :: "error + 'a \<Rightarrow> ('a \<Rightarrow> error + 'b) \<Rightarrow> error + 'b" where
  "and_then r f = (case r of Inl e \<Rightarrow> Inl e | Inr x \<Rightarrow> f x)"

text \<open>
  numpy's broadcasting of two array dimensions: equal, or one of them is 1.
\<close>

definition bdim :: "nat \<Rightarrow> nat \<Rightarrow> nat option" where
  "bdim a b = (if a = b then Some a else if a = 1 then Some b else if b = 1 then Some a else None)"

definition bcast2 :: "(real \<Rightarrow> real \<Rightarrow> real) \<Rightarrow> matrix \<Rightarrow> matrix \<Rightarrow> error + matrix" where
  "bcast2 f A B =
     (case (bdim (nrows A) (nrows B), bdim (ncols A) (ncols B)) of
        (Some n, Some m) \<Rightarrow>
          Inr \<lparr>ncols = m,
               rows = map (\<lambda>i. map (\<lambda>j.
                   f (entry A (if nrows A = 1 then 0 else i) (if ncols A = 1 then 0 else j))
                     (entry B (if nrows B = 1 then 0 else i) (if ncols B = 1 then 0 else j)))
                 [0..<m]) [0..<n]\<rparr>
      | _ \<Rightarrow> Inl ValueError)"

text \<open>A one-dimensional array of length \<open>p\<close> broadcasts as an array of shape \<open>(1, p)\<close>.\<close>

definition row_vector :: "vec \<Rightarrow> matrix" where
  "row_vector v = \<lparr>ncols = length v, rows = [v]\<rparr>"

definition bcast1 :: "(real \<Rightarrow> real \<Rightarrow> real) \<Rightarrow> vec \<Rightarrow> vec \<Rightarrow> error + vec" where
  "bcast1 f a b =
     (if length a = length b then Inr (map2 f a b)
      else if length a = 1 then Inr (map (f (hd a)) b)
      else if length b = 1 then Inr (map (\<lambda>x. f x (hd b)) a)
      else Inl ValueError)"

text \<open>\<^verbatim>\<open>1.0 / omega\<close> and \<^verbatim>\<open>Y / omega\<close>.\<close>

definition recip :: "vec \<Rightarrow> error + vec" where
  "recip v = (if 0 \<in> set v then Inl NonReal else Inr (map (\<lambda>x. 1 / x) v))"

definition vdiv :: "vec \<Rightarrow> vec \<Rightarrow> error + vec" where
  "vdiv a b =
     (case bcast1 (/) a b of
        Inl e \<Rightarrow> Inl e
      | Inr q \<Rightarrow> if 0 \<in> set b then Inl NonReal else Inr q)"

text \<open>
  \<^verbatim>\<open>dot(A, v)\<close> and \<^verbatim>\<open>np.matmul(A, v)\<close> for a two-dimensional \<open>A\<close> and a one-dimensional
  \<open>v\<close>: the product of the matrix with the vector.
\<close>

definition dot_mv :: "matrix \<Rightarrow> vec \<Rightarrow> error + vec" where
  "dot_mv A v =
     (if ncols A \<noteq> length v then Inl ValueError else Inr (map (\<lambda>r. inner r v) (rows A)))"

text \<open>\<^verbatim>\<open>np.dot(a, b)\<close> for two one-dimensional arrays.\<close>

definition np_dot :: "vec \<Rightarrow> vec \<Rightarrow> error + real" where
  "np_dot a b = (if length a \<noteq> length b then Inl ValueError else Inr (inner a b))"

definition np_transpose :: "matrix \<Rightarrow> matrix" where
  "np_transpose M = \<lparr>ncols = nrows M, rows = map (\<lambda>j. map (\<lambda>r. r ! j) (rows M)) [0..<ncols M]\<rparr>"

definition matmul :: "matrix \<Rightarrow> matrix \<Rightarrow> error + matrix" where
  "matmul A B =
     (if ncols A \<noteq> nrows B then Inl ValueError
      else Inr \<lparr>ncols = ncols B,
                rows = map (\<lambda>r. map (\<lambda>j. inner r (map (\<lambda>b. b ! j) (rows B))) [0..<ncols B])
                         (rows A)\<rparr>)"

text \<open>
  \<^verbatim>\<open>np.mean(v)\<close>: the sum of the array, added up from 0, divided by its length; \<open>rnd\<close>
  is the rounding of the result of every operation.
\<close>

definition np_sum :: "(real \<Rightarrow> real) \<Rightarrow> vec \<Rightarrow> real" where
  "np_sum rnd v = foldl (\<lambda>s x. rnd (s + x)) 0 v"

definition np_mean :: "(real \<Rightarrow> real) \<Rightarrow> vec \<Rightarrow> error + real" where
  "np_mean rnd v =
     (if v = [] then Inl NonReal else Inr (rnd (np_sum rnd v / real (length v))))"

definition np_sqrt :: "real \<Rightarrow> error + real" where
  "np_sqrt v = (if v < 0 then Inl NonReal else Inr (sqrt v))"

definition zeros :: "nat \<Rightarrow> nat \<Rightarrow> matrix" where
  "zeros n p = \<lparr>ncols = p, rows = replicate n (replicate p 0)\<rparr>"

text \<open>
  \<^verbatim>\<open>jax.ops.index_update(M, jax.ops.index[:, j], vals)\<close>: column \<open>j\<close> of \<open>M\<close> becomes
  \<open>vals\<close>, one value for each row. An index beyond the last column updates nothing.
\<close>

definition index_update_column :: "matrix \<Rightarrow> nat \<Rightarrow> vec \<Rightarrow> matrix" where
  "index_update_column M j vals = M\<lparr>rows := map2 (\<lambda>r v. r[j := v]) (rows M) vals\<rparr>"

text \<open>
  \<^verbatim>\<open>vmap(f)(xs)\<close>: \<open>f\<close> on every element along the leading axis; an error in \<open>f\<close> is an
  error of the whole.
\<close>

fun vmap :: "('a \<Rightarrow> error + 'b) \<Rightarrow> 'a list \<Rightarrow> error + 'b list" where
  "vmap f [] = Inr []"
| "vmap f (x # xs) =
     (case f x of
        Inl e \<Rightarrow> Inl e
      | Inr y \<Rightarrow> (case vmap f xs of Inl e \<Rightarrow> Inl e | Inr ys \<Rightarrow> Inr (y # ys)))"

section \<open>The program's data\<close>

text \<open>The command line, as \<^verbatim>\<open>argparse\<close> hands it to \<^verbatim>\<open>main\<close>.\<close>

record args =
  num_samples :: int
  num_warmup :: int
  num_chains :: int
  mtd :: int
  num_data :: int
  num_dimensions :: int
  seed :: int
  active_dimensions :: int
  thinning :: int
  device :: string

text \<open>The dictionary \<^verbatim>\<open>hypers\<close>.\<close>

record hypers =
  h_expected_sparsity :: int
  h_alpha1 :: real
  h_beta1 :: real
  h_sigma :: real
  h_alpha2 :: real
  h_beta2 :: real
  h_c :: real

text \<open>
  The posterior samples: \<^verbatim>\<open>samples['eta1']\<close>, \<^verbatim>\<open>samples['eta2']\<close>, \<^verbatim>\<open>samples['kappa']\<close> and
  \<^verbatim>\<open>samples['omega']\<close> are arrays with one entry (or row) for each draw; the model keeps
  one record for each draw.
\<close>

record sample =
  s_eta1 :: real
  s_eta2 :: real
  s_kappa :: vec
  s_omega :: vec

text \<open>What \<^verbatim>\<open>main\<close> stores under \<^verbatim>\<open>results[N]\<close>, and \<^verbatim>\<open>results\<close> itself.\<close>

record run_results =
  expected_thetas :: vec
  coeff_means :: vec
  coeff_stds :: vec
  correct_singletons :: nat
  false_singletons :: nat
  missed_singletons :: nat
  correct_quads :: nat
  false_quads :: nat
  missed_quads :: nat

record results =
  res_args :: args
  res_runs :: "nat \<rightharpoonup> run_results"

text \<open>
  Every \<^verbatim>\<open>print\<close> of the script is one constructor, holding the values the line is
  formatted from.
\<close>

datatype printed =
    NumberOfOnes nat nat
  | McmcElapsedTime real
  | CoefficientsUsed int vec
  | DimensionLine nat int string real real
  | SingletonCounts nat nat nat
  | IdentifiedTotal nat int
  | QuadraticCoefficient real
  | IdentifiedPair nat nat real real
  | NoPair nat nat real real
  | QuadCounts nat nat nat
  | PrintResults results

text \<open>
  What the script can see and change outside its own variables: the standard output, the
  standard error, the file system, the state of numpy's global random generator, the
  clock and the environment variables.
\<close>

record 'g world =
  stdout :: "printed list"
  stderr :: "string list"
  files :: "string \<rightharpoonup> string"
  np_random :: 'g
  clock :: real
  environ :: "string list"

definition print :: "printed \<Rightarrow> 'g world \<Rightarrow> 'g world" where
  "print line w = w\<lparr>stdout := stdout w @ [line]\<rparr>"

text \<open>What \<^verbatim>\<open>run_inference\<close> passes to \<^verbatim>\<open>NUTS\<close> and \<^verbatim>\<open>MCMC\<close>.\<close>

record mcmc_config =
  cfg_max_tree_depth :: int
  cfg_num_warmup :: int
  cfg_num_samples :: int
  cfg_num_chains :: int
  cfg_progress_bar :: bool

text \<open>
  The libraries the script calls are parameters of the model: numpy's random generator
  (\<open>'g\<close> is its state), jax's random keys (\<open>'k\<close>), numpyro's sampler for the function
  \<^verbatim>\<open>model\<close> (\<open>'m\<close> is the \<^verbatim>\<open>MCMC\<close> object after \<^verbatim>\<open>run\<close>), the three solvers of
  \<^verbatim>\<open>jax.scipy.linalg\<close>, and the rounding of jax's arithmetic in
  \<open>gaussian_mixture_stats\<close>.
\<close>

record ('g, 'k, 'm) framework =
  np_seed :: "int \<Rightarrow> 'g"
  np_rand :: "'g \<Rightarrow> real \<times> 'g"
  np_binomial :: "real \<Rightarrow> 'g \<Rightarrow> nat \<times> 'g"
  PRNGKey :: "int \<Rightarrow> 'k"
  mcmc_run :: "mcmc_config \<Rightarrow> 'k \<Rightarrow> matrix \<Rightarrow> vec \<Rightarrow> hypers \<Rightarrow> 'g world \<Rightarrow> error + 'm \<times> 'g world"
  print_summary :: "'m \<Rightarrow> 'g world \<Rightarrow> 'g world"
  get_samples :: "'m \<Rightarrow> sample list"
  cho_factor :: "matrix \<Rightarrow> error + matrix"
  cho_solve :: "matrix \<Rightarrow> vec \<Rightarrow> error + vec"
  solve_triangular :: "matrix \<Rightarrow> matrix \<Rightarrow> error + matrix"
  rounding :: "real \<Rightarrow> real"

section \<open>Posterior marginals of the coefficients\<close>

text \<open>
  \<^verbatim>\<open>
  def compute_coefficient_mean_variance(X, Y, probe, vec, eta1, eta2, c, kappa, omega):
      kprobe, kX = kappa * probe, kappa * X
      k_xx = kernel(kX, kX, eta1, eta2, c)
      k_probeX = kernel(kprobe, kX, eta1, eta2, c)
      k_prbprb = kernel(kprobe, kprobe, eta1, eta2, c)
      L = cho_factor(k_xx + np.eye(X.shape[0]) * (1.0 / omega), lower=True)[0]
      mu = 0.5 * cho_solve((L, True), Y / omega)
      mu = np.dot(vec, dot(k_probeX, mu))
      Linv_kXprobe = solve_triangular(L, np.transpose(k_probeX), lower=True)
      var = k_prbprb - np.matmul(np.transpose(Linv_kXprobe), Linv_kXprobe)
      var = np.dot(vec, np.matmul(var, vec))
      return mu, var
  \<close>
  The model has the first four lines as \<open>covariances\<close> and the function as the rest,
  run on their result.
\<close>

definition covariances ::
  "matrix \<Rightarrow> matrix \<Rightarrow> real \<Rightarrow> real \<Rightarrow> real \<Rightarrow> vec \<Rightarrow> error + matrix \<times> matrix \<times> matrix" where
  "covariances X probe eta1 eta2 c kappa =
     and_then (bcast2 (*) (row_vector kappa) probe) (\<lambda>kprobe.
     and_then (bcast2 (*) (row_vector kappa) X) (\<lambda>kX.
     and_then (kernel kX kX eta1 eta2 c default_jitter) (\<lambda>k_xx.
     and_then (kernel kprobe kX eta1 eta2 c default_jitter) (\<lambda>k_probeX.
     and_then (kernel kprobe kprobe eta1 eta2 c default_jitter) (\<lambda>k_prbprb.
     Inr (k_xx, k_probeX, k_prbprb))))))"

definition compute_coefficient_mean_variance ::
  "('g, 'k, 'm) framework \<Rightarrow> matrix \<Rightarrow> vec \<Rightarrow> matrix \<Rightarrow> vec \<Rightarrow> real \<Rightarrow> real \<Rightarrow> real \<Rightarrow> vec \<Rightarrow> vec
   \<Rightarrow> error + real \<times> real" where
  "compute_coefficient_mean_variance fw X Y probe vec eta1 eta2 c kappa omega =
     and_then (covariances X probe eta1 eta2 c kappa) (\<lambda>(k_xx, k_probeX, k_prbprb).
     and_then (recip omega) (\<lambda>inv_omega.
     and_then (bcast2 (*) (eye (nrows X)) (row_vector inv_omega)) (\<lambda>D.
     and_then (bcast2 (+) k_xx D) (\<lambda>A.
     and_then (cho_factor fw A) (\<lambda>L.
     and_then (vdiv Y omega) (\<lambda>Y_omega.
     and_then (cho_solve fw L Y_omega) (\<lambda>sol.
     and_then (dot_mv k_probeX (map (\<lambda>v. 0.5 * v) sol)) (\<lambda>k_mu.
     and_then (np_dot vec k_mu) (\<lambda>mu.
     and_then (solve_triangular fw L (np_transpose k_probeX)) (\<lambda>Linv_kXprobe.
     and_then (matmul (np_transpose Linv_kXprobe) Linv_kXprobe) (\<lambda>Q.
     and_then (bcast2 (-) k_prbprb Q) (\<lambda>var.
     and_then (dot_mv var vec) (\<lambda>var_vec.
     and_then (np_dot vec var_vec) (\<lambda>var.
     Inr (mu, var)))))))))))))))"

text \<open>
  \<^verbatim>\<open>
  def compute_singleton_mean_variance(X, Y, dimension, eta1, eta2, c, kappa, omega):
      probe = np.zeros((2, X.shape[1]))
      probe = jax.ops.index_update(probe, jax.ops.index[:, dimension], np.array([1.0, -1.0]))
      vec = np.array([0.50, -0.50])
      return compute_coefficient_mean_variance(X, Y, probe, vec, eta1, eta2, c, kappa, omega)
  \<close>
\<close>

definition singleton_probe :: "nat \<Rightarrow> nat \<Rightarrow> matrix" where
  "singleton_probe P dimension = index_update_column (zeros 2 P) dimension [1, - 1]"

definition singleton_vec :: vec where
  "singleton_vec = [0.5, - 0.5]"

definition compute_singleton_mean_variance ::
  "('g, 'k, 'm) framework \<Rightarrow> matrix \<Rightarrow> vec \<Rightarrow> nat \<Rightarrow> real \<Rightarrow> real \<Rightarrow> real \<Rightarrow> vec \<Rightarrow> vec
   \<Rightarrow> error + real \<times> real" where
  "compute_singleton_mean_variance fw X Y dimension eta1 eta2 c kappa omega =
     compute_coefficient_mean_variance fw X Y (singleton_probe (ncols X) dimension)
       singleton_vec eta1 eta2 c kappa omega"

text \<open>
  \<^verbatim>\<open>
  def compute_pairwise_mean_variance(X, Y, dim1, dim2, eta1, eta2, c, kappa, omega):
      probe = np.zeros((4, X.shape[1]))
      probe = jax.ops.index_update(probe, jax.ops.index[:, dim1], np.array([1.0, 1.0, -1.0, -1.0]))
      probe = jax.ops.index_update(probe, jax.ops.index[:, dim2], np.array([1.0, -1.0, 1.0, -1.0]))
      vec = np.array([0.25, -0.25, -0.25, 0.25])
      return compute_coefficient_mean_variance(X, Y, probe, vec, eta1, eta2, c, kappa, omega)
  \<close>
\<close>

definition pairwise_probe :: "nat \<Rightarrow> nat \<Rightarrow> nat \<Rightarrow> matrix" where
  "pairwise_probe P dim1 dim2 =
     index_update_column (index_update_column (zeros 4 P) dim1 [1, 1, - 1, - 1])
       dim2 [1, - 1, 1, - 1]"

definition pairwise_vec :: vec where
  "pairwise_vec = [0.25, - 0.25, - 0.25, 0.25]"

definition compute_pairwise_mean_variance ::
  "('g, 'k, 'm) framework \<Rightarrow> matrix \<Rightarrow> vec \<Rightarrow> nat \<Rightarrow> nat \<Rightarrow> real \<Rightarrow> real \<Rightarrow> real \<Rightarrow> vec \<Rightarrow> vec
   \<Rightarrow> error + real \<times> real" where
  "compute_pairwise_mean_variance fw X Y dim1 dim2 eta1 eta2 c kappa omega =
     compute_coefficient_mean_variance fw X Y (pairwise_probe (ncols X) dim1 dim2)
       pairwise_vec eta1 eta2 c kappa omega"

text \<open>
  \<^verbatim>\<open>
  def gaussian_mixture_stats(mus, variances):
      mean_mu = np.mean(mus)
      mean_var = np.mean(variances) + np.mean(np.square(mus)) - np.square(mean_mu)
      return mean_mu, mean_var
  \<close>
\<close>

text \<open>
  The first argument \<open>rnd\<close> is the rounding of floating-point arithmetic, applied to
  the result of every addition, subtraction, multiplication and division: the identity
  for exact arithmetic, \<open>binary64\<close> for the 64-bit arithmetic the script switches on.
\<close>

definition gaussian_mixture_stats :: "(real \<Rightarrow> real) \<Rightarrow> vec \<Rightarrow> vec \<Rightarrow> error + real \<times> real" where
  "gaussian_mixture_stats rnd mus variances =
     and_then (np_mean rnd mus) (\<lambda>mean_mu.
     and_then (np_mean rnd variances) (\<lambda>mean_variances.
     and_then (np_mean rnd (map (\<lambda>m. rnd (m * m)) mus)) (\<lambda>mean_squares.
     Inr (mean_mu,
          rnd (rnd (mean_variances + mean_squares) - rnd (mean_mu * mean_mu))))))"

text \<open>
  \<^verbatim>\<open>
  def analyze_dimension(samples, X, Y, dimension, hypers):
      vmap_args = (samples['eta1'], samples['eta2'], samples['kappa'], samples['omega'])
      mus, variances = vmap(lambda eta1, eta2, kappa, omega:
          compute_singleton_mean_variance(X, Y, dimension, eta1, eta2, hypers['c'], kappa, omega))(*vmap_args)
      mean, variance = gaussian_mixture_stats(mus, variances)
      std = np.sqrt(variance)
      return mean, std
  \<close>
  and the same for a pair of dimensions.
\<close>

definition analyze_dimension ::
  "('g, 'k, 'm) framework \<Rightarrow> sample list \<Rightarrow> matrix \<Rightarrow> vec \<Rightarrow> nat \<Rightarrow> hypers \<Rightarrow> error + real \<times> real" where
  "analyze_dimension fw samples X Y dimension hyp =
     and_then (vmap (\<lambda>s. compute_singleton_mean_variance fw X Y dimension
                           (s_eta1 s) (s_eta2 s) (h_c hyp) (s_kappa s) (s_omega s)) samples)
       (\<lambda>stats.
     and_then (gaussian_mixture_stats (rounding fw) (map fst stats) (map snd stats))
       (\<lambda>(mean, variance).
     and_then (np_sqrt variance) (\<lambda>std.
     Inr (mean, std))))"

definition analyze_pair_of_dimensions ::
  "('g, 'k, 'm) framework \<Rightarrow> sample list \<Rightarrow> matrix \<Rightarrow> vec \<Rightarrow> nat \<Rightarrow> nat \<Rightarrow> hypers
   \<Rightarrow> error + real \<times> real" where
  "analyze_pair_of_dimensions fw samples X Y dim1 dim2 hyp =
     and_then (vmap (\<lambda>s. compute_pairwise_mean_variance fw X Y dim1 dim2
                           (s_eta1 s) (s_eta2 s) (h_c hyp) (s_kappa s) (s_omega s)) samples)
       (\<lambda>stats.
     and_then (gaussian_mixture_stats (rounding fw) (map fst stats) (map snd stats))
       (\<lambda>(mean, variance).
     and_then (np_sqrt variance) (\<lambda>std.
     Inr (mean, std))))"

section \<open>Inference\<close>

text \<open>
  The slice \<^verbatim>\<open>v[::k]\<close>: every \<open>k\<close>-th element from the first on for a positive \<open>k\<close>,
  every \<open>|k|\<close>-th from the last on backwards for a negative one, ValueError for zero.
\<close>

function stride :: "nat \<Rightarrow> 'a list \<Rightarrow> 'a list" where
  "stride k [] = []"
| "stride k (x # xs) = x # stride k (drop (k - 1) xs)"
  by pat_completeness auto
termination
  by (relation "measure (\<lambda>(k, xs). length xs)") auto

definition thin :: "int \<Rightarrow> 'a list \<Rightarrow> error + 'a list" where
  "thin k v =
     (if k = 0 then Inl ValueError
      else if 0 < k then Inr (stride (nat k) v)
      else Inr (stride (nat (- k)) (rev v)))"

text \<open>
  \<^verbatim>\<open>
  def run_inference(model, args, rng_key, X, Y, hypers):
      start = time.time()
      kernel = NUTS(model, max_tree_depth=args.mtd)
      mcmc = MCMC(kernel, args.num_warmup, args.num_samples, num_chains=args.num_chains,
                  progress_bar=False if "NUMPYRO_SPHINXBUILD" in os.environ else True)
      mcmc.run(rng_key, X, Y, hypers)
      mcmc.print_summary()
      print('\nMCMC elapsed time:', time.time() - start)
      samples = mcmc.get_samples()
      for k, v in samples.items():
          samples[k] = v[::args.thinning]
      return samples
  \<close>
  The first argument is always the function \<^verbatim>\<open>model\<close> of the script, which the sampler of
  the framework stands for.
\<close>

definition run_inference ::
  "('g, 'k, 'm) framework \<Rightarrow> args \<Rightarrow> 'k \<Rightarrow> matrix \<Rightarrow> vec \<Rightarrow> hypers \<Rightarrow> 'g world
   \<Rightarrow> error + sample list \<times> 'g world" where
  "run_inference fw a rng_key X Y hyp w =
     (let start = clock w;
          cfg = \<lparr>cfg_max_tree_depth = mtd a, cfg_num_warmup = num_warmup a,
                 cfg_num_samples = num_samples a, cfg_num_chains = num_chains a,
                 cfg_progress_bar = (''NUMPYRO_SPHINXBUILD'' \<notin> set (environ w))\<rparr>
      in and_then (mcmc_run fw cfg rng_key X Y hyp w) (\<lambda>(mcmc, w1).
         let w2 = print_summary fw mcmc w1;
             w3 = print (McmcElapsedTime (clock w2 - start)) w2
         in and_then (thin (thinning a) (get_samples fw mcmc)) (\<lambda>samples.
            Inr (samples, w3))))"

section \<open>The synthetic data\<close>

text \<open>
  \<open>draws d n g\<close> takes \<open>n\<close> values from the generator one after the other;
  \<open>draw_rows\<close> fills an array of shape \<open>(n, p)\<close> row by row; \<open>binomials\<close> draws one
  value for each probability of an array.
\<close>

fun draws :: "('g \<Rightarrow> 'a \<times> 'g) \<Rightarrow> nat \<Rightarrow> 'g \<Rightarrow> 'a list \<times> 'g" where
  "draws d 0 g = ([], g)"
| "draws d (Suc n) g =
     (case d g of (x, g1) \<Rightarrow> (case draws d n g1 of (xs, g2) \<Rightarrow> (x # xs, g2)))"

fun draw_rows :: "('g \<Rightarrow> 'a \<times> 'g) \<Rightarrow> nat \<Rightarrow> nat \<Rightarrow> 'g \<Rightarrow> 'a list list \<times> 'g" where
  "draw_rows d 0 p g = ([], g)"
| "draw_rows d (Suc n) p g =
     (case draws d p g of (r, g1) \<Rightarrow> (case draw_rows d n p g1 of (rs, g2) \<Rightarrow> (r # rs, g2)))"

fun binomials :: "(real \<Rightarrow> 'g \<Rightarrow> nat \<times> 'g) \<Rightarrow> vec \<Rightarrow> 'g \<Rightarrow> nat list \<times> 'g" where
  "binomials b [] g = ([], g)"
| "binomials b (p # ps) g =
     (case b p g of (x, g1) \<Rightarrow> (case binomials b ps g1 of (xs, g2) \<Rightarrow> (x # xs, g2)))"

definition sigmoid :: "real \<Rightarrow> real" where
  "sigmoid x = 1 / (1 + exp (- x))"

text \<open>\<^verbatim>\<open>X[:, j]\<close>: IndexError when the array has no column \<open>j\<close>.\<close>

definition column :: "matrix \<Rightarrow> nat \<Rightarrow> error + vec" where
  "column M j = (if j < ncols M then Inr (map (\<lambda>r. r ! j) (rows M)) else Inl IndexError)"

text \<open>\<^verbatim>\<open>2 * b - 1\<close> for a draw \<open>b\<close> of \<^verbatim>\<open>binomial(1, p)\<close>.\<close>

definition sign_of :: "nat \<Rightarrow> real" where
  "sign_of b = 2 * real b - 1"

text \<open>
  \<^verbatim>\<open>
  def get_data(N=20, S=2, P=10, seed=0):
      assert S < P and P > 1 and S > 0
      onp.random.seed(seed)
      W = 1.0 + 1.5 * onp.random.rand(S)
      flip = 2 * onp.random.binomial(1, 0.5, W.shape) - 1
      W *= flip
      X = onp.random.rand(N, P) + 0.5
      flip = 2 * onp.random.binomial(1, 0.5, X.shape) - 1
      X *= flip
      pairwise_coefficient = 3.0
      expected_quad_dims = [(0, 1), (2, 3)]
      Y = onp.sum(X[:, 0:S] * W, axis=-1) + pairwise_coefficient * (X[:, 0] * X[:, 1] - X[:, 2] * X[:, 3])
      Y = 2 * onp.random.binomial(1, sigmoid(Y)) - 1
      print("number of 1s: {}  number of -1s: {}".format(np.sum(Y == 1.0), np.sum(Y == -1.0)))
      assert X.shape == (N, P)
      assert Y.shape == (N,)
      return X, Y, W, pairwise_coefficient, expected_quad_dims
  \<close>
  \<open>N\<close> is a number of rows, a natural number; \<open>S\<close> and \<open>P\<close> are the integers the first
  assertion tests.
\<close>

definition get_data ::
  "('g, 'k, 'm) framework \<Rightarrow> nat \<Rightarrow> int \<Rightarrow> int \<Rightarrow> int \<Rightarrow> 'g world
   \<Rightarrow> error + (matrix \<times> vec \<times> vec \<times> real \<times> (nat \<times> nat) list) \<times> 'g world" where
  "get_data fw N S P sd w =
     (if \<not> (S < P \<and> P > 1 \<and> S > 0) then Inl AssertionError
      else
        let g0 = np_seed fw sd;
            (us, g1) = draws (np_rand fw) (nat S) g0;
            W0 = map (\<lambda>u. 1 + 1.5 * u) us;
            (bs, g2) = draws (np_binomial fw 0.5) (nat S) g1;
            W = map2 (\<lambda>v b. v * sign_of b) W0 bs;
            (ux, g3) = draw_rows (np_rand fw) N (nat P) g2;
            X0 = map (map (\<lambda>u. u + 0.5)) ux;
            (bx, g4) = draw_rows (np_binomial fw 0.5) N (nat P) g3;
            X = \<lparr>ncols = nat P, rows = map2 (map2 (\<lambda>v b. v * sign_of b)) X0 bx\<rparr>;
            pairwise_coefficient = 3;
            expected_quad_dims = [(0, 1), (2, 3)];
            linear = map (\<lambda>r. sum_list (map2 (*) (take (nat S) r) W)) (rows X)
        in and_then (column X 0) (\<lambda>x0.
           and_then (column X 1) (\<lambda>x1.
           and_then (column X 2) (\<lambda>x2.
           and_then (column X 3) (\<lambda>x3.
           let Y0 = map2 (+) linear
                      (map (\<lambda>v. pairwise_coefficient * v)
                         (map2 (-) (map2 (*) x0 x1) (map2 (*) x2 x3)));
               (bY, g5) = binomials (np_binomial fw) (map sigmoid Y0) g4;
               Y = map sign_of bY;
               w1 = print (NumberOfOnes (length (filter (\<lambda>y. y = 1) Y))
                                        (length (filter (\<lambda>y. y = - 1) Y)))
                      (w\<lparr>np_random := g5\<rparr>)
           in if shape X \<noteq> (N, nat P) then Inl AssertionError
              else if length Y \<noteq> N then Inl AssertionError
              else Inr ((X, Y, W, pairwise_coefficient, expected_quad_dims), w1))))))"

section \<open>The main function\<close>

text \<open>
  The loop over the dimensions:
  \<^verbatim>\<open>
  for dim, (mean, std) in enumerate(zip(means, stds)):
      lower, upper = mean - 2.0 * std, mean + 2.0 * std
      inactive = "inactive" if lower < 0.0 and upper > 0.0 else "active"
      if inactive == "active":
          active_dims.append(dim)
      print("[dimension %02d/%02d]  %s:\t%.2e +- %.2e" % (dim + 1, args.num_dimensions, inactive, mean, std))
  \<close>
  Its state is the list \<^verbatim>\<open>active_dims\<close> and the world.
\<close>

fun dimension_loop ::
  "int \<Rightarrow> nat \<Rightarrow> (real \<times> real) list \<Rightarrow> nat list \<times> 'g world \<Rightarrow> nat list \<times> 'g world" where
  "dimension_loop nd dimn [] st = st"
| "dimension_loop nd dimn ((mean, std) # rest) (active_dims, w) =
     (let lower = mean - 2 * std;
          upper = mean + 2 * std;
          inactive = (if lower < 0 \<and> upper > 0 then ''inactive'' else ''active'');
          active_dims1 = (if inactive = ''active'' then active_dims @ [dimn] else active_dims);
          w1 = print (DimensionLine (dimn + 1) nd inactive mean std) w
      in dimension_loop nd (dimn + 1) rest (active_dims1, w1))"

text \<open>
  The loop over the pairs:
  \<^verbatim>\<open>
  for dim_pair, mean, std in zip(dim_pairs, means, stds):
      dim1, dim2 = dim_pair
      if dim1 >= dim2:
          continue
      lower, upper = mean - 2.0 * std, mean + 2.0 * std
      if not (lower < 0.0 and upper > 0.0):
          print("Identified pairwise interaction ..." % (dim1 + 1, dim2 + 1, mean, std))
          active_quad_dims.append((dim1, dim2))
      else:
          print("No pairwise interaction ..." % (dim1 + 1, dim2 + 1, mean, std))
  \<close>
\<close>

fun pair_loop ::
  "((nat \<times> nat) \<times> real \<times> real) list \<Rightarrow> (nat \<times> nat) list \<times> 'g world
   \<Rightarrow> (nat \<times> nat) list \<times> 'g world" where
  "pair_loop [] st = st"
| "pair_loop (((dim1, dim2), mean, std) # rest) (active_quad_dims, w) =
     (if dim1 \<ge> dim2 then pair_loop rest (active_quad_dims, w)
      else
        let lower = mean - 2 * std;
            upper = mean + 2 * std
        in if \<not> (lower < 0 \<and> upper > 0)
           then pair_loop rest
                  (active_quad_dims @ [(dim1, dim2)],
                   print (IdentifiedPair (dim1 + 1) (dim2 + 1) mean std) w)
           else pair_loop rest
                  (active_quad_dims, print (NoPair (dim1 + 1) (dim2 + 1) mean std) w))"

text \<open>
  \<^verbatim>\<open>
  active_quad_dims = []
  if len(active_dims) > 0:
      dim_pairs = np.array(list(itertools.product(active_dims, active_dims)))
      means, stds = vmap(lambda dim_pair: analyze_pair_of_dimensions(samples, X, Y,
                                              dim_pair[0], dim_pair[1], hypers))(dim_pairs)
      for dim_pair, mean, std in zip(dim_pairs, means, stds): ...
  \<close>
  \<open>analyze\<close> is the function under \<^verbatim>\<open>vmap\<close>.
\<close>

definition pair_stage ::
  "(nat \<Rightarrow> nat \<Rightarrow> error + real \<times> real) \<Rightarrow> nat list \<Rightarrow> 'g world
   \<Rightarrow> error + (nat \<times> nat) list \<times> 'g world" where
  "pair_stage analyze active_dims w =
     (if length active_dims > 0
      then
        let dim_pairs = List.product active_dims active_dims
        in and_then (vmap (\<lambda>dim_pair. analyze (fst dim_pair) (snd dim_pair)) dim_pairs)
             (\<lambda>stats. Inr (pair_loop (zip dim_pairs stats) ([], w)))
      else Inr ([], w))"

text \<open>
  The body of \<^verbatim>\<open>for N in [200]:\<close> in \<^verbatim>\<open>main\<close>. The entry \<^verbatim>\<open>results[N]\<close> is filled key
  by key in the script and at once here.
\<close>

definition main_body ::
  "('g, 'k, 'm) framework \<Rightarrow> args \<Rightarrow> nat \<Rightarrow> results \<times> 'g world \<Rightarrow> error + results \<times> 'g world" where
  "main_body fw a N st =
     (case st of (res, w) \<Rightarrow>
      and_then (get_data fw N (active_dimensions a) (num_dimensions a) (seed a) w)
        (\<lambda>((X, Y, expected_thetas, expected_pairwise, expected_quad_dims), w1).
      let hyp = \<lparr>h_expected_sparsity = active_dimensions a,
                 h_alpha1 = 2, h_beta1 = 1, h_sigma = 2,
                 h_alpha2 = 2, h_beta2 = 1, h_c = 1\<rparr>;
          rng_key = PRNGKey fw (seed a)
      in and_then (run_inference fw a rng_key X Y hyp w1) (\<lambda>(samples, w2).
         and_then (vmap (\<lambda>dimn. analyze_dimension fw samples X Y dimn hyp)
                     [0..<nat (num_dimensions a)]) (\<lambda>stats.
         let means = map fst stats;
             stds = map snd stats;
             w3 = print (CoefficientsUsed (active_dimensions a) expected_thetas) w2;
             expected_active_dims = [0..<nat (active_dimensions a)];
             (active_dims, w4) = dimension_loop (num_dimensions a) 0 (zip means stds) ([], w3);
             correct_s = card (set active_dims \<inter> set expected_active_dims);
             false_s = card (set active_dims - set expected_active_dims);
             missed_s = card (set expected_active_dims - set active_dims);
             w5 = print (SingletonCounts correct_s false_s missed_s) w4;
             w6 = print (IdentifiedTotal (length active_dims) (active_dimensions a)) w5;
             w7 = print (QuadraticCoefficient expected_pairwise) w6
         in and_then (pair_stage (\<lambda>dim1 dim2.
                        analyze_pair_of_dimensions fw samples X Y dim1 dim2 hyp) active_dims w7)
              (\<lambda>(active_quad_dims, w8).
            let correct_q = card (set active_quad_dims \<inter> set expected_quad_dims);
                false_q = card (set active_quad_dims - set expected_quad_dims);
                missed_q = card (set expected_quad_dims - set active_quad_dims);
                w9 = print (QuadCounts correct_q false_q missed_q) w8
            in Inr (res\<lparr>res_runs := (res_runs res)(N \<mapsto>
                      \<lparr>expected_thetas = expected_thetas,
                       coeff_means = means, coeff_stds = stds,
                       correct_singletons = correct_s, false_singletons = false_s,
                       missed_singletons = missed_s,
                       correct_quads = correct_q, false_quads = false_q,
                       missed_quads = missed_q\<rparr>)\<rparr>, w9))))))"

fun main_loop ::
  "('g, 'k, 'm) framework \<Rightarrow> args \<Rightarrow> nat list \<Rightarrow> results \<times> 'g world \<Rightarrow> error + results \<times> 'g world" where
  "main_loop fw a [] st = Inr st"
| "main_loop fw a (N # Ns) st = and_then (main_body fw a N st) (main_loop fw a Ns)"

text \<open>
  \<^verbatim>\<open>
  def main(args):
      results = {'args': args}
      P = args.num_dimensions
      for N in [200]:
          ...
      print("RESULTS\n", results)
      log_dir = '/home/jankowiak/Research/numpyro/slog/'
      log_file = 'slog.P_{}.S_{}.seed_{}.ns_{}_{}.mtd_{}'
      log_file = log_file.format(...)
      #with open(log_dir + log_file + '.pkl', 'wb') as f:
      #    pickle.dump(results, f, protocol=2)
  \<close>
  The two strings are computed and never used. \<^verbatim>\<open>main\<close> returns nothing; the model
  returns the dictionary \<^verbatim>\<open>results\<close> it has built, with the world it leaves.
\<close>

definition main ::
  "('g, 'k, 'm) framework \<Rightarrow> args \<Rightarrow> 'g world \<Rightarrow> error + results \<times> 'g world" where
  "main fw a w =
     (let res = \<lparr>res_args = a, res_runs = Map.empty\<rparr>
      in and_then (main_loop fw a [200] (res, w)) (\<lambda>(res1, w1).
         Inr (res1, print (PrintResults res1) w1)))"

section \<open>The Gaussian mixture of the claims\<close>






section \<open>The quadratic functions of the claims\<close>

text \<open>
  Following the words of the claim about the probes, not the code: the function
  \<open>f(x) = c0 + \<Sum>\<^sub>k theta\<^sub>k x\<^sub>k + \<Sum>\<^sub>k\<^sub><\<^sub>l theta\<^sub>k\<^sub>l x\<^sub>k x\<^sub>l\<close> of a point \<open>x\<close>.
\<close>

definition quadratic :: "real \<Rightarrow> (nat \<Rightarrow> real) \<Rightarrow> (nat \<Rightarrow> nat \<Rightarrow> real) \<Rightarrow> vec \<Rightarrow> real" where
  "quadratic c0 theta theta2 x =
     c0 + (\<Sum>k<length x. theta k * x ! k)
        + (\<Sum>k<length x. \<Sum>l\<in>{k<..<length x}. theta2 k l * x ! k * x ! l)"

section \<open>The quadratic kernel of the claims\<close>

text \<open>
  Following the words of the claims about \<open>kernel\<close>, not the code: the kernel of the
  quadratic feature map, for row \<open>i\<close> of \<open>X\<close> and row \<open>j\<close> of \<open>Z\<close>, without jitter.
\<close>

definition quadratic_kernel :: "matrix \<Rightarrow> matrix \<Rightarrow> real \<Rightarrow> real \<Rightarrow> real \<Rightarrow> nat \<Rightarrow> nat \<Rightarrow> real" where
  "quadratic_kernel X Z eta1 eta2 c i j =
     c\<^sup>2 + eta1\<^sup>2 * (\<Sum>k<ncols X. entry X i k * entry Z j k)
     + (eta2\<^sup>2 / 2) * ((\<Sum>k<ncols X. entry X i k * entry Z j k)\<^sup>2
                          - (\<Sum>k<ncols X. (entry X i k)\<^sup>2 * (entry Z j k)\<^sup>2))"

section \<open>The two-sigma interval of the claims\<close>

text \<open>
  Following the words of the claims about active dimensions and pairs, not the code: the
  interval \<open>[mean - 2 std, mean + 2 std]\<close> strictly contains zero. The two functions
  after it name the lines the two loops print for a dimension and for a pair.
\<close>

definition contains_zero :: "real \<times> real \<Rightarrow> bool" where
  "contains_zero ms = (fst ms - 2 * snd ms < 0 \<and> fst ms + 2 * snd ms > 0)"

definition dimension_line :: "int \<Rightarrow> nat \<times> real \<times> real \<Rightarrow> printed" where
  "dimension_line nd e =
     DimensionLine (fst e + 1) nd (if contains_zero (snd e) then ''inactive'' else ''active'')
       (fst (snd e)) (snd (snd e))"

definition pair_line :: "(nat \<Rightarrow> nat \<Rightarrow> real \<times> real) \<Rightarrow> nat \<times> nat \<Rightarrow> printed" where
  "pair_line stat p =
     (if \<not> contains_zero (stat (fst p) (snd p)) then IdentifiedPair else NoPair)
       (fst p + 1) (snd p + 1) (fst (stat (fst p) (snd p))) (snd (stat (fst p) (snd p)))"

section \<open>What is assumed of numpy's random generator\<close>

text \<open>
  \<^verbatim>\<open>rand\<close> draws from \<open>[0, 1)\<close>, and \<^verbatim>\<open>binomial(1, p)\<close> draws 0 or 1.
\<close>

definition rng_ok :: "('g, 'k, 'm) framework \<Rightarrow> bool" where
  "rng_ok fw =
     ((\<forall>g. 0 \<le> fst (np_rand fw g) \<and> fst (np_rand fw g) < 1)
      \<and> (\<forall>p g. fst (np_binomial fw p g) \<le> 1))"

section \<open>What the world keeps, and a framework to run on\<close>

text \<open>
  \<open>frame w w'\<close>: from \<open>w\<close> to \<open>w'\<close> no file and no environment variable has changed,
  and the standard output has only grown. \<open>sampler_ok\<close> asks it of the two calls into
  numpyro that touch the world.
\<close>

definition frame :: "'g world \<Rightarrow> 'g world \<Rightarrow> bool" where
  "frame w w' = (files w' = files w \<and> environ w' = environ w
                 \<and> (\<exists>out. stdout w' = stdout w @ out))"

definition sampler_ok :: "('g, 'k, 'm) framework \<Rightarrow> bool" where
  "sampler_ok fw =
     ((\<forall>cfg k X Y h w m w'. mcmc_run fw cfg k X Y h w = Inr (m, w') \<longrightarrow> frame w w')
      \<and> (\<forall>m w. frame w (print_summary fw m w)))"

text \<open>
  A framework on which \<^verbatim>\<open>main\<close> runs to its end: the generator always draws 0, the
  sampler returns one draw (\<open>eta1 = eta2 = 0\<close>, \<open>kappa = 0\<close>, \<open>omega = 1\<close>) and prints
  nothing, the solvers return fixed arrays that the products after them accept, and
  the arithmetic is exact.
  \<open>args0\<close> is the command line with every option at its default.
\<close>

definition fw0 :: "(unit, int, sample list) framework" where
  "fw0 = \<lparr>np_seed = (\<lambda>sd. ()),
           np_rand = (\<lambda>g. (0, g)),
           np_binomial = (\<lambda>p g. (0, g)),
           PRNGKey = (\<lambda>sd. sd),
           mcmc_run = (\<lambda>cfg k X Y h w.
             Inr ([\<lparr>s_eta1 = 0, s_eta2 = 0, s_kappa = replicate (ncols X) 0,
                    s_omega = replicate (nrows X) 1\<rparr>], w)),
           print_summary = (\<lambda>m w. w),
           get_samples = (\<lambda>m. m),
           cho_factor = (\<lambda>A. Inr A),
           cho_solve = (\<lambda>L b. Inr (map (\<lambda>v. 0) b)),
           solve_triangular = (\<lambda>L B. Inr \<lparr>ncols = ncols B, rows = []\<rparr>),
           rounding = (\<lambda>x. x)\<rparr>"

definition sample0 :: "matrix \<Rightarrow> sample" where
  "sample0 X = \<lparr>s_eta1 = 0, s_eta2 = 0, s_kappa = replicate (ncols X) 0,
                s_omega = replicate (nrows X) 1\<rparr>"

definition args0 :: args where
  "args0 = \<lparr>num_samples = 300, num_warmup = 200, num_chains = 1, mtd = 6, num_data = 0,
            num_dimensions = 128, seed = 0, active_dimensions = 6, thinning = 10,
            device = ''cpu''\<rparr>"

text \<open>
  \<open>fw1\<close> is \<open>fw0\<close> with a sampler that shows a progress bar on the standard error
  when it is asked for one, as numpyro's does. \<open>like_fw0\<close> holds of the frameworks
  that agree with \<open>fw0\<close> in the solvers, the rounding and the draw the sampler
  returns.
\<close>

definition fw1 :: "(unit, int, sample list) framework" where
  "fw1 = fw0\<lparr>mcmc_run := (\<lambda>cfg k X Y h w.
             Inr ([sample0 X],
                  if cfg_progress_bar cfg
                  then w\<lparr>stderr := stderr w @ [''sample: 100%'']\<rparr> else w))\<rparr>"

definition like_fw0 :: "(unit, int, sample list) framework \<Rightarrow> bool" where
  "like_fw0 fw =
     (cho_factor fw = cho_factor fw0 \<and> cho_solve fw = cho_solve fw0
      \<and> solve_triangular fw = solve_triangular fw0 \<and> rounding fw = rounding fw0
      \<and> get_samples fw = get_samples fw0
      \<and> (\<forall>cfg k X Y h w. \<exists>w'. mcmc_run fw cfg k X Y h w = Inr ([sample0 X], w')))"

section \<open>Concrete inputs\<close>

text \<open>Small arrays, and a world with nothing printed, no file and no environment
  variable, on which the theorems below are instantiated.\<close>

definition X23 :: matrix where
  "X23 = \<lparr>ncols = 3, rows = [[1, 2, 3], [0, 1, - 1]]\<rparr>"

definition Z13 :: matrix where
  "Z13 = \<lparr>ncols = 3, rows = [[2, 0, 1]]\<rparr>"

definition X22 :: matrix where
  "X22 = \<lparr>ncols = 2, rows = [[1, 2], [3, 4]]\<rparr>"

definition Z22 :: matrix where
  "Z22 = \<lparr>ncols = 2, rows = [[0, 1], [1, 0]]\<rparr>"


definition world0 :: "unit world" where
  "world0 = \<lparr>stdout = [], stderr = [], files = Map.empty, np_random = (), clock = 0,
              environ = []\<rparr>"

section \<open>Properties of the kernel\<close>

lemma inner_sum:
  "length x = length z \<Longrightarrow> inner x z = (\<Sum>k<length x. x ! k * z ! k)"
proof -
  assume len: "length x = length z"
  have "inner x z = (\<Sum>k = 0..<length (map2 (*) x z). map2 (*) x z ! k)"
    unfolding inner_def by (rule sum_list_sum_nth)
  also have "\<dots> = (\<Sum>k<length x. x ! k * z ! k)"
    using len by (simp add: atLeast0LessThan)
  finally show ?thesis .
qed

lemma wf_matrix_row:
  "wf_matrix M \<Longrightarrow> i < nrows M \<Longrightarrow> length (rows M ! i) = ncols M"
  by (simp add: wf_matrix_def nrows_def list_all_length)

lemma entry_map_matrix:
  "i < nrows M \<Longrightarrow> j < length (rows M ! i) \<Longrightarrow> entry (map_matrix f M) i j = f (entry M i j)"
  by (simp add: entry_def map_matrix_def nrows_def)

lemma entry_dot:
  "dot X Z = Inr d \<Longrightarrow> i < nrows X \<Longrightarrow> j < nrows Z \<Longrightarrow>
   entry d i j = inner (rows X ! i) (rows Z ! j)"
  by (auto simp: dot_def entry_def nrows_def split: if_splits)

lemma entry_madd:
  "i < nrows A \<Longrightarrow> i < nrows B \<Longrightarrow> j < length (rows A ! i) \<Longrightarrow> j < length (rows B ! i) \<Longrightarrow>
   entry (madd A B) i j = entry A i j + entry B i j"
  by (simp add: entry_def madd_def nrows_def)

lemma entry_eye:
  "i < n \<Longrightarrow> j < n \<Longrightarrow> entry (eye n) i j = (if i = j then 1 else 0)"
  by (simp add: entry_def eye_def)

lemma inner_rows:
  assumes "wf_matrix X" "wf_matrix Z" "ncols X = ncols Z" "i < nrows X" "j < nrows Z"
  shows "inner (rows X ! i) (rows Z ! j) = (\<Sum>k<ncols X. entry X i k * entry Z j k)"
  using assms by (simp add: inner_sum wf_matrix_row entry_def)

lemma inner_rows_square:
  assumes "wf_matrix X" "wf_matrix Z" "ncols X = ncols Z" "i < nrows X" "j < nrows Z"
  shows "inner (rows (square X) ! i) (rows (square Z) ! j) =
         (\<Sum>k<ncols X. (entry X i k)\<^sup>2 * (entry Z j k)\<^sup>2)"
proof -
  have lx: "length (rows X ! i) = ncols X" and lz: "length (rows Z ! j) = ncols X"
    using assms by (simp_all add: wf_matrix_row)
  have "inner (rows (square X) ! i) (rows (square Z) ! j) =
        inner (map (\<lambda>v. v * v) (rows X ! i)) (map (\<lambda>v. v * v) (rows Z ! j))"
    using assms by (simp add: square_def map_matrix_def nrows_def)
  also have "\<dots> = (\<Sum>k<ncols X. (entry X i k)\<^sup>2 * (entry Z j k)\<^sup>2)"
    using lx lz by (simp add: inner_sum entry_def power2_eq_square)
  finally show ?thesis .
qed

lemma kernel_entry:
  assumes wf: "wf_matrix X" "wf_matrix Z" and cols: "ncols X = ncols Z"
    and i: "i < nrows X" and j: "j < nrows Z"
    and K: "kernel X Z eta1 eta2 c jitter = Inr K"
  shows "entry K i j =
     c\<^sup>2 + eta1\<^sup>2 * (\<Sum>k<ncols X. entry X i k * entry Z j k)
     + (eta2\<^sup>2 / 2) * ((\<Sum>k<ncols X. entry X i k * entry Z j k)\<^sup>2
                          - (\<Sum>k<ncols X. (entry X i k)\<^sup>2 * (entry Z j k)\<^sup>2))
     + (if shape X = shape Z \<and> i = j then jitter else 0)"
proof -
  define d where "d = \<lparr>ncols = nrows Z, rows = map (\<lambda>x. map (inner x) (rows Z)) (rows X)\<rparr>"
  define dsq where "dsq = \<lparr>ncols = nrows Z,
      rows = map (\<lambda>x. map (inner x) (rows (square Z))) (rows (square X))\<rparr>"
  have dot1: "dot X Z = Inr d"
    using cols by (simp add: dot_def d_def)
  have dot2: "dot (square X) (square Z) = Inr dsq"
    using cols by (simp add: dot_def dsq_def square_def map_matrix_def nrows_def)
  have ed: "entry d i j = (\<Sum>k<ncols X. entry X i k * entry Z j k)"
    using entry_dot [OF dot1 i j] inner_rows [OF wf cols i j] by simp
  have i2: "i < nrows (square X)" and j2: "j < nrows (square Z)"
    using i j by (simp_all add: square_def map_matrix_def nrows_def)
  have edsq: "entry dsq i j = (\<Sum>k<ncols X. (entry X i k)\<^sup>2 * (entry Z j k)\<^sup>2)"
    using entry_dot [OF dot2 i2 j2] inner_rows_square [OF wf cols i j] by simp
  have nd: "i < nrows d" "j < length (rows d ! i)" "i < nrows dsq" "j < length (rows dsq ! i)"
    using i j by (simp_all add: d_def dsq_def nrows_def square_def map_matrix_def)
  have e1: "entry (map_matrix f d) i j = f (entry d i j)" for f
    using nd by (simp add: entry_map_matrix)
  have e2: "entry (map_matrix f dsq) i j = f (entry dsq i j)" for f
    using nd by (simp add: entry_map_matrix)
  define k123 where "k123 =
     madd (madd (map_matrix (\<lambda>v. 0.5 * (eta2 * eta2) * ((1 + v) * (1 + v))) d)
                (map_matrix (\<lambda>v. - 0.5 * (eta2 * eta2) * v) dsq))
          (map_matrix (\<lambda>v. (eta1 * eta1 - eta2 * eta2) * v) d)"
  have n123: "i < nrows k123" "j < length (rows k123 ! i)"
    using i j by (simp_all add: k123_def madd_def map_matrix_def nrows_def d_def dsq_def
        square_def)
  have e123: "entry k123 i j =
        0.5 * (eta2 * eta2) * ((1 + entry d i j) * (1 + entry d i j))
        + - 0.5 * (eta2 * eta2) * entry dsq i j
        + (eta1 * eta1 - eta2 * eta2) * entry d i j"
    unfolding k123_def using nd
    by (simp add: entry_def madd_def map_matrix_def nrows_def)
  show ?thesis
  proof (cases "shape X = shape Z")
    case True
    then have n: "nrows X = nrows Z"
      by (simp add: shape_def)
    have "K = madd k123
              (map_matrix (\<lambda>v. c * c - 0.5 * (eta2 * eta2) + jitter * v) (eye (nrows X)))"
      using K True unfolding k123_def kernel_def dot1 dot2 Let_def by simp
    moreover have "entry (map_matrix f (eye (nrows X))) i j = f (if i = j then 1 else 0)"
      and "i < nrows (map_matrix f (eye (nrows X)))"
      and "j < length (rows (map_matrix f (eye (nrows X))) ! i)" for f
      using i j n by (simp_all add: entry_def map_matrix_def eye_def nrows_def)
    ultimately have "entry K i j = entry k123 i j
        + (c * c - 0.5 * (eta2 * eta2) + jitter * (if i = j then 1 else 0))"
      using n123 by (simp add: entry_madd)
    then show ?thesis
      using True ed edsq e123 by (simp add: power2_eq_square algebra_simps)
  next
    case False
    have "K = map_matrix (\<lambda>v. v + (c * c - 0.5 * (eta2 * eta2))) k123"
      using K False unfolding k123_def kernel_def dot1 dot2 Let_def by simp
    then have "entry K i j = entry k123 i j + (c * c - 0.5 * (eta2 * eta2))"
      using n123 by (simp add: entry_map_matrix)
    then show ?thesis
      using False ed edsq e123 by (simp add: power2_eq_square algebra_simps)
  qed
qed

lemma kernel_returns:
  "ncols X = ncols Z \<Longrightarrow> \<exists>K. kernel X Z eta1 eta2 c jitter = Inr K"
  by (simp add: kernel_def dot_def square_def map_matrix_def Let_def)

lemma kernel_shape:
  assumes "kernel X Z eta1 eta2 c jitter = Inr K"
  shows "shape K = (nrows X, nrows Z)"
  using assms
  by (auto simp: kernel_def dot_def square_def map_matrix_def Let_def shape_def nrows_def
      madd_def eye_def split: if_splits)

lemma kernel_wf:
  assumes "kernel X Z eta1 eta2 c jitter = Inr K"
  shows "wf_matrix K"
  using assms
  by (auto simp: kernel_def dot_def square_def map_matrix_def Let_def shape_def nrows_def
      madd_def eye_def wf_matrix_def list_all_length split: if_splits)

text \<open>
  Claim C2. For arrays \<open>X\<close> and \<open>Z\<close> with the same number of columns and different
  shapes, and all scalars \<open>eta1\<close>, \<open>eta2\<close>, \<open>c\<close> (and any jitter), \<open>kernel\<close> returns
  an array of shape \<open>(rows of X, rows of Z)\<close> whose entry \<open>(i, j)\<close> is
  \<open>c\<^sup>2 + eta1\<^sup>2 (x\<^sub>i \<cdot> z\<^sub>j) + (eta2\<^sup>2 / 2) ((x\<^sub>i \<cdot> z\<^sub>j)\<^sup>2 - \<Sum>\<^sub>k x\<^sub>i\<^sub>k\<^sup>2 z\<^sub>j\<^sub>k\<^sup>2)\<close>: no jitter is added.
  Entries are real numbers.
\<close>

theorem kernel_quadratic_feature_map:
  assumes "wf_matrix X" and "wf_matrix Z" and "ncols X = ncols Z" and "shape X \<noteq> shape Z"
  shows "\<exists>K. kernel X Z eta1 eta2 c jitter = Inr K \<and> shape K = (nrows X, nrows Z) \<and>
    (\<forall>i<nrows X. \<forall>j<nrows Z. entry K i j =
       c\<^sup>2 + eta1\<^sup>2 * (\<Sum>k<ncols X. entry X i k * entry Z j k)
       + (eta2\<^sup>2 / 2) * ((\<Sum>k<ncols X. entry X i k * entry Z j k)\<^sup>2
                            - (\<Sum>k<ncols X. (entry X i k)\<^sup>2 * (entry Z j k)\<^sup>2)))"
proof -
  obtain K where K: "kernel X Z eta1 eta2 c jitter = Inr K"
    using kernel_returns [OF assms(3)] by blast
  have "entry K i j =
       c\<^sup>2 + eta1\<^sup>2 * (\<Sum>k<ncols X. entry X i k * entry Z j k)
       + (eta2\<^sup>2 / 2) * ((\<Sum>k<ncols X. entry X i k * entry Z j k)\<^sup>2
                            - (\<Sum>k<ncols X. (entry X i k)\<^sup>2 * (entry Z j k)\<^sup>2))"
    if "i < nrows X" "j < nrows Z" for i j
    using kernel_entry [OF assms(1,2,3) that K] assms(4) by simp
  with K kernel_shape [OF K] show ?thesis by blast
qed

theorem kernel_quadratic_feature_map_witness:
  "wf_matrix X23 \<and> wf_matrix Z13 \<and> ncols X23 = ncols Z13 \<and> shape X23 \<noteq> shape Z13 \<and>
   kernel X23 Z13 1 2 3 default_jitter = Inr \<lparr>ncols = 1, rows = [[38], [8]]\<rparr>"
proof -
  have h: "wf_matrix X23" "wf_matrix Z13" "ncols X23 = ncols Z13" "shape X23 \<noteq> shape Z13"
    by (simp_all add: X23_def Z13_def wf_matrix_def shape_def nrows_def)
  from kernel_quadratic_feature_map [OF h, of 1 2 3 default_jitter]
  obtain K where "kernel X23 Z13 1 2 3 default_jitter = Inr K"
    by blast
  have "kernel X23 Z13 1 2 3 default_jitter = Inr \<lparr>ncols = 1, rows = [[38], [8]]\<rparr>"
    by (simp add: kernel_def dot_def square_def map_matrix_def Let_def shape_def nrows_def
      madd_def inner_def X23_def Z13_def)
  with h show ?thesis by simp
qed

section \<open>The mixture statistics\<close>












section \<open>The probes\<close>

lemma rows_singleton_probe:
  "rows (singleton_probe P d) = [(replicate P 0)[d := 1], (replicate P 0)[d := - 1]]"
  by (simp add: singleton_probe_def index_update_column_def zeros_def numeral_2_eq_2)

lemma rows_pairwise_probe:
  "rows (pairwise_probe P i j) =
     [(replicate P 0)[i := 1, j := 1], (replicate P 0)[i := 1, j := - 1],
      (replicate P 0)[i := - 1, j := 1], (replicate P 0)[i := - 1, j := - 1]]"
  by (simp add: pairwise_probe_def index_update_column_def zeros_def eval_nat_numeral)

lemma linear_part_one:
  assumes "d < P"
  shows "(\<Sum>k<P. theta k * (replicate P (0::real))[d := a] ! k) = theta d * a"
proof -
  have "(\<Sum>k<P. theta k * (replicate P (0::real))[d := a] ! k) =
        (\<Sum>k\<in>{..<P}. if k = d then theta d * a else 0)"
    by (rule sum.cong) (auto simp: nth_list_update)
  also have "\<dots> = theta d * a"
    using assms by simp
  finally show ?thesis .
qed

lemma quadratic_part_one:
  "(\<Sum>k<P. \<Sum>l\<in>{k<..<P}. theta2 k l * (replicate P (0::real))[d := a] ! k
       * (replicate P (0::real))[d := a] ! l) = 0"
proof (rule sum.neutral, rule ballI, rule sum.neutral, rule ballI)
  fix k l
  assume k: "k \<in> {..<P}" and l: "l \<in> {k<..<P}"
  then consider "k \<noteq> d" | "l \<noteq> d"
    by fastforce
  then show "theta2 k l * (replicate P (0::real))[d := a] ! k * (replicate P (0::real))[d := a] ! l = 0"
  proof cases
    case 1
    then have "(replicate P (0::real))[d := a] ! k = 0" using k by simp
    then show ?thesis by simp
  next
    case 2
    then have "(replicate P (0::real))[d := a] ! l = 0" using l by simp
    then show ?thesis by simp
  qed
qed

lemma linear_part_two:
  assumes "i < P" "j < P" "i \<noteq> j"
  shows "(\<Sum>k<P. theta k * (replicate P (0::real))[i := a, j := b] ! k) = theta i * a + theta j * b"
proof -
  have "(\<Sum>k<P. theta k * (replicate P (0::real))[i := a, j := b] ! k) =
        (\<Sum>k\<in>{..<P}. (if k = i then theta i * a else 0) + (if k = j then theta j * b else 0))"
    using assms by (intro sum.cong) (auto simp: nth_list_update)
  also have "\<dots> = theta i * a + theta j * b"
    using assms by (simp add: sum.distrib)
  finally show ?thesis .
qed

lemma quadratic_part_two_ordered:
  fixes x :: "real list"
  assumes ij: "i < j" "j < P"
    and zero: "\<And>k. k < P \<Longrightarrow> k \<noteq> i \<Longrightarrow> k \<noteq> j \<Longrightarrow> x ! k = 0"
  shows "(\<Sum>k<P. \<Sum>l\<in>{k<..<P}. g k l * x ! k * x ! l) = g i j * x ! i * x ! j"
proof -
  have inner: "(\<Sum>l\<in>{k<..<P}. g k l * x ! k * x ! l) = (if k = i then g i j * x ! i * x ! j else 0)"
    if k: "k \<in> {..<P}" for k
  proof (cases "k = i")
    case True
    have "(\<Sum>l\<in>{i<..<P}. g i l * x ! i * x ! l) =
          (\<Sum>l\<in>{i<..<P}. if l = j then g i j * x ! i * x ! j else 0)"
      using zero by (intro sum.cong) auto
    also have "\<dots> = g i j * x ! i * x ! j"
      using ij by simp
    finally show ?thesis using True by simp
  next
    case False
    have "(\<Sum>l\<in>{k<..<P}. g k l * x ! k * x ! l) = 0"
    proof (rule sum.neutral, rule ballI)
      fix l assume l: "l \<in> {k<..<P}"
      show "g k l * x ! k * x ! l = 0"
      proof (cases "k = j")
        case True
        then have "l \<noteq> i" "l \<noteq> j" using l ij by auto
        then have "x ! l = 0" using zero l by simp
        then show ?thesis by simp
      next
        case kj: False
        then have "x ! k = 0" using zero k False by simp
        then show ?thesis by simp
      qed
    qed
    then show ?thesis using False by simp
  qed
  have "(\<Sum>k<P. \<Sum>l\<in>{k<..<P}. g k l * x ! k * x ! l) =
        (\<Sum>k\<in>{..<P}. if k = i then g i j * x ! i * x ! j else 0)"
    by (rule sum.cong) (simp_all add: inner)
  also have "\<dots> = g i j * x ! i * x ! j"
    using ij by simp
  finally show ?thesis .
qed

lemma quadratic_part_two:
  assumes "i < P" "j < P" "i \<noteq> j"
  shows "(\<Sum>k<P. \<Sum>l\<in>{k<..<P}. theta2 k l * (replicate P (0::real))[i := a, j := b] ! k
            * (replicate P (0::real))[i := a, j := b] ! l)
         = theta2 (min i j) (max i j) * a * b"
proof -
  let ?x = "(replicate P (0::real))[i := a, j := b]"
  have xi: "?x ! i = a" and xj: "?x ! j = b"
    using assms by (simp_all add: nth_list_update)
  have z: "?x ! k = 0" if "k < P" "k \<noteq> i" "k \<noteq> j" for k
    using that by (simp add: nth_list_update)
  show ?thesis
  proof (cases "i < j")
    case True
    from quadratic_part_two_ordered [of i j P ?x theta2, OF True assms(2) z]
    show ?thesis using True xi xj by (simp add: min_def max_def)
  next
    case False
    then have ji: "j < i" using assms(3) by simp
    have z': "?x ! k = 0" if "k < P" "k \<noteq> j" "k \<noteq> i" for k
      using that z by simp
    from quadratic_part_two_ordered [of j i P ?x theta2, OF ji assms(1) z']
    show ?thesis using ji xi xj by (simp add: min_def max_def)
  qed
qed

lemma quadratic_one:
  "d < P \<Longrightarrow> quadratic c0 theta theta2 ((replicate P 0)[d := a]) = c0 + theta d * a"
  by (simp add: quadratic_def linear_part_one quadratic_part_one)

lemma quadratic_two:
  "i < P \<Longrightarrow> j < P \<Longrightarrow> i \<noteq> j \<Longrightarrow>
   quadratic c0 theta theta2 ((replicate P 0)[i := a, j := b]) =
     c0 + theta i * a + theta j * b + theta2 (min i j) (max i j) * a * b"
  by (simp add: quadratic_def linear_part_two quadratic_part_two)

text \<open>
  Claim C3. The probe points and weights of the post-processing extract the
  coefficients of a quadratic function \<open>f\<close>: the rows \<open>+e\<^sub>d\<close>, \<open>-e\<^sub>d\<close> of the
  singleton probe, weighted by \<open>1/2\<close>, \<open>-1/2\<close>, give \<open>theta\<^sub>d\<close>; the four rows
  \<open>\<plusminus>e\<^sub>i \<plusminus> e\<^sub>j\<close> of the pairwise probe, weighted by \<open>1/4\<close>, \<open>-1/4\<close>, \<open>-1/4\<close>,
  \<open>1/4\<close>, give for \<open>i \<noteq> j\<close> the coefficient of \<open>x\<^sub>i x\<^sub>j\<close>, which \<open>f\<close> keeps under
  the smaller index first.
\<close>

theorem probes_extract_coefficients:
  assumes "d < P" and "i < P" and "j < P" and "i \<noteq> j"
  shows "np_dot singleton_vec (map (quadratic c0 theta theta2) (rows (singleton_probe P d)))
           = Inr (theta d)
       \<and> np_dot pairwise_vec (map (quadratic c0 theta theta2) (rows (pairwise_probe P i j)))
           = Inr (theta2 (min i j) (max i j))"
  using assms
  by (simp add: rows_singleton_probe rows_pairwise_probe quadratic_one quadratic_two
      np_dot_def inner_def singleton_vec_def pairwise_vec_def field_simps)


theorem probes_extract_coefficients_witness:
  "(1::nat) < 3 \<and> (0::nat) < 3 \<and> (2::nat) < 3 \<and> (0::nat) \<noteq> 2
   \<and> np_dot singleton_vec
        (map (quadratic 5 (\<lambda>k. real k + 1) (\<lambda>k l. real (10 * k + l))) (rows (singleton_probe 3 1)))
      = Inr 2
   \<and> np_dot pairwise_vec
        (map (quadratic 5 (\<lambda>k. real k + 1) (\<lambda>k l. real (10 * k + l))) (rows (pairwise_probe 3 0 2)))
      = Inr 2"
  using probes_extract_coefficients
    [of 1 3 0 2 5 "\<lambda>k. real k + 1" "\<lambda>k l. real (10 * k + l)"]
  by simp

section \<open>The jitter\<close>

lemma bdim_one: "bdim (Suc 0) n = Some n"
  by (simp add: bdim_def)

lemma bdim_same: "bdim n n = Some n"
  by (simp add: bdim_def)

lemma bcast2_scale:
  assumes "length kappa = ncols M"
  shows "\<exists>R. bcast2 (*) (row_vector kappa) M = Inr R \<and> nrows R = nrows M \<and> ncols R = ncols M
           \<and> wf_matrix R \<and> (\<forall>i<nrows M. \<forall>j<ncols M. entry R i j = kappa ! j * entry M i j)"
proof -
  define R where "R = \<lparr>ncols = ncols M,
      rows = map (\<lambda>i. map (\<lambda>j.
                   entry (row_vector kappa) 0 (if ncols M = 1 then 0 else j)
                   * entry M (if nrows M = 1 then 0 else i) (if ncols M = 1 then 0 else j))
                 [0..<ncols M]) [0..<nrows M]\<rparr>"
  have "bcast2 (*) (row_vector kappa) M = Inr R"
    using assms by (simp add: bcast2_def R_def bdim_one bdim_same row_vector_def nrows_def)
  moreover have "nrows R = nrows M" "ncols R = ncols M"
    by (simp_all add: R_def nrows_def)
  moreover have "wf_matrix R"
    by (simp add: R_def wf_matrix_def list_all_length)
  moreover have "entry R i j = kappa ! j * entry M i j" if "i < nrows M" "j < ncols M" for i j
    using that by (auto simp: R_def entry_def row_vector_def)
  ultimately show ?thesis by blast
qed

lemma kernel_equal_shapes:
  assumes "wf_matrix X" and "wf_matrix Z" and "shape X = shape Z"
  shows "\<exists>K. kernel X Z eta1 eta2 c jitter = Inr K \<and>
     (\<forall>i<nrows X. \<forall>j<nrows X. entry K i j =
        quadratic_kernel X Z eta1 eta2 c i j + (if i = j then jitter else 0))"
proof -
  have cols: "ncols X = ncols Z" and n: "nrows X = nrows Z"
    using assms(3) by (simp_all add: shape_def)
  obtain K where K: "kernel X Z eta1 eta2 c jitter = Inr K"
    using kernel_returns [OF cols] by blast
  have "entry K i j = quadratic_kernel X Z eta1 eta2 c i j + (if i = j then jitter else 0)"
    if "i < nrows X" "j < nrows X" for i j
    using kernel_entry [OF assms(1,2) cols that(1) _ K, of j] that n assms(3)
    by (simp add: quadratic_kernel_def)
  with K show ?thesis by blast
qed

lemma covariances_cross:
  assumes wf: "wf_matrix X" "wf_matrix probe"
    and cols: "ncols probe = ncols X" "length kappa = ncols X"
  shows "\<exists>kprobe kX k_xx K k_prbprb.
       bcast2 (*) (row_vector kappa) probe = Inr kprobe
     \<and> bcast2 (*) (row_vector kappa) X = Inr kX
     \<and> covariances X probe eta1 eta2 c kappa = Inr (k_xx, K, k_prbprb)
     \<and> shape K = (nrows probe, nrows X)
     \<and> (\<forall>i<nrows probe. \<forall>j<nrows X. entry K i j =
          quadratic_kernel kprobe kX eta1 eta2 c i j
          + (if nrows probe = nrows X \<and> i = j then default_jitter else 0))"
proof -
  obtain kprobe where kp: "bcast2 (*) (row_vector kappa) probe = Inr kprobe"
    "nrows kprobe = nrows probe" "ncols kprobe = ncols probe" "wf_matrix kprobe"
    using bcast2_scale [of kappa probe] cols by auto
  obtain kX where kx: "bcast2 (*) (row_vector kappa) X = Inr kX"
    "nrows kX = nrows X" "ncols kX = ncols X" "wf_matrix kX"
    using bcast2_scale [of kappa X] cols by auto
  obtain k_xx where k1: "kernel kX kX eta1 eta2 c default_jitter = Inr k_xx"
    using kernel_returns [of kX kX] by blast
  have c2: "ncols kprobe = ncols kX" using kp kx cols by simp
  obtain K where k2: "kernel kprobe kX eta1 eta2 c default_jitter = Inr K"
    using kernel_returns [OF c2] by blast
  obtain k_pp where k3: "kernel kprobe kprobe eta1 eta2 c default_jitter = Inr k_pp"
    using kernel_returns [of kprobe kprobe] by blast
  have cov: "covariances X probe eta1 eta2 c kappa = Inr (k_xx, K, k_pp)"
    by (simp add: covariances_def and_then_def kp(1) kx(1) k1 k2 k3)
  have sh: "shape K = (nrows probe, nrows X)"
    using kernel_shape [OF k2] kp kx by simp
  have eq: "shape kprobe = shape kX \<longleftrightarrow> nrows probe = nrows X"
    using kp kx cols by (simp add: shape_def)
  have "entry K i j = quadratic_kernel kprobe kX eta1 eta2 c i j
          + (if nrows probe = nrows X \<and> i = j then default_jitter else 0)"
    if "i < nrows probe" "j < nrows X" for i j
    using kernel_entry [OF kp(4) kx(4) c2 _ _ k2, of i j] that kp kx eq
    by (simp add: quadratic_kernel_def)
  with kp(1) kx(1) cov sh show ?thesis by blast
qed

lemma singleton_probe_shape:
  "nrows (singleton_probe P d) = 2 \<and> ncols (singleton_probe P d) = P \<and> wf_matrix (singleton_probe P d)"
  by (simp add: singleton_probe_def index_update_column_def zeros_def nrows_def wf_matrix_def
      numeral_2_eq_2)

lemma pairwise_probe_shape:
  "nrows (pairwise_probe P i j) = 4 \<and> ncols (pairwise_probe P i j) = P
   \<and> wf_matrix (pairwise_probe P i j)"
  by (simp add: pairwise_probe_def index_update_column_def zeros_def nrows_def wf_matrix_def
      eval_nat_numeral)

text \<open>
  Claim C8. \<open>kernel\<close> adds \<open>jitter\<close> on the diagonal whenever its two arguments have
  equal shapes, also when they are different arrays. So the cross-covariance
  \<open>k_probeX = kernel(kprobe, kX, ...)\<close> of the post-processing, for the probe of two or of
  four rows, has the (non-zero) default jitter on its diagonal exactly when the probe
  has as many rows as \<open>X\<close>, and is the plain quadratic kernel otherwise.
\<close>

theorem kernel_jitter_on_equal_shapes:
  assumes "wf_matrix X" and "wf_matrix Z" and "shape X = shape Z"
    and "wf_matrix X'" and "length kappa = ncols X'"
    and "probe = singleton_probe (ncols X') d \<or> probe = pairwise_probe (ncols X') d1 d2"
  shows "(\<exists>K. kernel X Z eta1 eta2 c jitter = Inr K \<and>
            (\<forall>i<nrows X. \<forall>j<nrows X. entry K i j =
               quadratic_kernel X Z eta1 eta2 c i j + (if i = j then jitter else 0)))
       \<and> (nrows probe = 2 \<or> nrows probe = 4)
       \<and> (\<exists>kprobe kX k_xx k_probeX k_prbprb.
             bcast2 (*) (row_vector kappa) probe = Inr kprobe
           \<and> bcast2 (*) (row_vector kappa) X' = Inr kX
           \<and> covariances X' probe eta1 eta2 c kappa = Inr (k_xx, k_probeX, k_prbprb)
           \<and> shape k_probeX = (nrows probe, nrows X')
           \<and> (\<forall>i<nrows probe. \<forall>j<nrows X'. entry k_probeX i j =
                quadratic_kernel kprobe kX eta1 eta2 c i j
                + (if nrows probe = nrows X' \<and> i = j then default_jitter else 0)))
       \<and> default_jitter \<noteq> 0"
proof -
  have p: "wf_matrix probe" "ncols probe = ncols X'" "nrows probe = 2 \<or> nrows probe = 4"
    using assms(6) singleton_probe_shape [of "ncols X'" d]
      pairwise_probe_shape [of "ncols X'" d1 d2] by auto
  show ?thesis
    using kernel_equal_shapes [OF assms(1,2,3), of eta1 eta2 c jitter]
      covariances_cross [OF assms(4) p(1,2) assms(5), of eta1 eta2 c] p(3)
    by (simp add: default_jitter_def)
qed

theorem kernel_jitter_on_equal_shapes_witness:
  "wf_matrix X22 \<and> wf_matrix Z22 \<and> shape X22 = shape Z22 \<and> X22 \<noteq> Z22
   \<and> length [1, 1 :: real] = ncols X22
   \<and> kernel X22 Z22 1 1 1 default_jitter
       = Inr \<lparr>ncols = 2, rows = [[3 + default_jitter, 2], [5, 4 + default_jitter]]\<rparr>
   \<and> nrows (singleton_probe (ncols X22) 0) = nrows X22
   \<and> covariances X22 (singleton_probe (ncols X22) 0) 1 1 1 [1, 1]
       = Inr (\<lparr>ncols = 2, rows = [[10 + default_jitter, 36], [36, 170 + default_jitter]]\<rparr>,
              \<lparr>ncols = 2, rows = [[2 + default_jitter, 4], [0, - 2 + default_jitter]]\<rparr>,
              \<lparr>ncols = 2, rows = [[2 + default_jitter, 0], [0, 2 + default_jitter]]\<rparr>)"
proof -
  have h: "wf_matrix X22" "wf_matrix Z22" "shape X22 = shape Z22" "length [1, 1 :: real] = ncols X22"
    by (simp_all add: X22_def Z22_def wf_matrix_def shape_def nrows_def)
  have "nrows (singleton_probe (ncols X22) 0) = 2 \<or> nrows (singleton_probe (ncols X22) 0) = 4"
    using kernel_jitter_on_equal_shapes [OF h(1,2,3) h(1) h(4), of "singleton_probe (ncols X22) 0" 0]
    by blast
  then have n: "nrows (singleton_probe (ncols X22) 0) = nrows X22"
    by (simp add: X22_def nrows_def singleton_probe_def index_update_column_def zeros_def)
  have ne: "X22 \<noteq> Z22"
    by (simp add: X22_def Z22_def)
  have k: "kernel X22 Z22 1 1 1 default_jitter
       = Inr \<lparr>ncols = 2, rows = [[3 + default_jitter, 2], [5, 4 + default_jitter]]\<rparr>"
    by code_simp
  have c: "covariances X22 (singleton_probe (ncols X22) 0) 1 1 1 [1, 1]
       = Inr (\<lparr>ncols = 2, rows = [[10 + default_jitter, 36], [36, 170 + default_jitter]]\<rparr>,
              \<lparr>ncols = 2, rows = [[2 + default_jitter, 4], [0, - 2 + default_jitter]]\<rparr>,
              \<lparr>ncols = 2, rows = [[2 + default_jitter, 0], [0, 2 + default_jitter]]\<rparr>)"
    by code_simp
  from h ne k n c show ?thesis by simp
qed

section \<open>The two loops of the main function\<close>

lemma dimension_loop_enumerate:
  "dimension_loop nd k ms (acc, w) =
     (acc @ map fst (filter (\<lambda>e. \<not> contains_zero (snd e)) (enumerate k ms)),
      w\<lparr>stdout := stdout w @ map (dimension_line nd) (enumerate k ms)\<rparr>)"
proof (induction ms arbitrary: k acc w)
  case Nil
  then show ?case by simp
next
  case (Cons m ms)
  obtain mean std where m: "m = (mean, std)" by (cases m)
  show ?case
    unfolding m
    by (simp add: Cons.IH Let_def contains_zero_def dimension_line_def print_def)
qed

lemma enumerate_nth: "enumerate 0 ms = map (\<lambda>d. (d, ms ! d)) [0..<length ms]"
  by (simp add: enumerate_eq_zip zip_eq_conv comp_def map_nth)

lemma dimension_loop_active_dims:
  "fst (dimension_loop nd 0 ms ([], w)) = filter (\<lambda>d. \<not> contains_zero (ms ! d)) [0..<length ms]"
  by (simp add: dimension_loop_enumerate enumerate_nth filter_map comp_def)

lemma dimension_loop_stdout:
  "snd (dimension_loop nd 0 ms ([], w)) =
     w\<lparr>stdout := stdout w @ map (\<lambda>d. dimension_line nd (d, ms ! d)) [0..<length ms]\<rparr>"
  by (simp add: dimension_loop_enumerate enumerate_nth comp_def)

text \<open>
  Claim C1. The loop over the dimensions prints, for every dimension, \<open>inactive\<close>
  exactly when \<open>mean - 2 std < 0\<close> and \<open>mean + 2 std > 0\<close>, and \<open>active\<close> otherwise
  (so also when an end of the interval is zero), and the list \<open>active_dims\<close> it returns
  holds exactly the dimensions printed as active.
\<close>

theorem dimension_classification:
  "dimension_loop nd 0 (zip means stds) ([], w) =
     (filter (\<lambda>d. \<not> (means ! d - 2 * stds ! d < 0 \<and> means ! d + 2 * stds ! d > 0))
        [0..<min (length means) (length stds)],
      w\<lparr>stdout := stdout w @
           map (\<lambda>d. DimensionLine (d + 1) nd
                      (if means ! d - 2 * stds ! d < 0 \<and> means ! d + 2 * stds ! d > 0
                       then ''inactive'' else ''active'')
                      (means ! d) (stds ! d))
             [0..<min (length means) (length stds)]\<rparr>)
   \<and> (\<forall>d < min (length means) (length stds).
         d \<in> set (fst (dimension_loop nd 0 (zip means stds) ([], w))) \<longleftrightarrow>
           \<not> (means ! d - 2 * stds ! d < 0 \<and> means ! d + 2 * stds ! d > 0))
   \<and> (\<forall>d < min (length means) (length stds).
         means ! d - 2 * stds ! d = 0 \<or> means ! d + 2 * stds ! d = 0 \<longrightarrow>
           d \<in> set (fst (dimension_loop nd 0 (zip means stds) ([], w))))"
proof -
  let ?n = "min (length means) (length stds)"
  let ?A = "filter (\<lambda>d. \<not> (means ! d - 2 * stds ! d < 0 \<and> means ! d + 2 * stds ! d > 0)) [0..<?n]"
  have a: "fst (dimension_loop nd 0 (zip means stds) ([], w)) = ?A"
    unfolding dimension_loop_active_dims
    by (rule filter_cong) (auto simp: contains_zero_def)
  have b: "snd (dimension_loop nd 0 (zip means stds) ([], w)) =
      w\<lparr>stdout := stdout w @
           map (\<lambda>d. DimensionLine (d + 1) nd
                      (if means ! d - 2 * stds ! d < 0 \<and> means ! d + 2 * stds ! d > 0
                       then ''inactive'' else ''active'')
                      (means ! d) (stds ! d)) [0..<?n]\<rparr>"
    unfolding dimension_loop_stdout
    by (simp add: dimension_line_def contains_zero_def cong: map_cong)
  have c: "dimension_loop nd 0 (zip means stds) ([], w) = (?A, snd (dimension_loop nd 0 (zip means stds) ([], w)))"
    using a by (metis prod.collapse)
  show ?thesis
    unfolding a using c b by auto
qed

theorem dimension_classification_witness:
  "dimension_loop 3 0 (zip [1, 0, 2] [1 / 2, 1, 2]) ([], world0) =
     ([0], world0\<lparr>stdout := [DimensionLine 1 3 ''active'' 1 (1 / 2),
                               DimensionLine 2 3 ''inactive'' 0 1,
                               DimensionLine 3 3 ''inactive'' 2 2]\<rparr>)
   \<and> [1, 0, 2 :: real] ! 0 - 2 * [1 / 2, 1, 2 :: real] ! 0 = 0
   \<and> 0 \<in> set (fst (dimension_loop 3 0 (zip [1, 0, 2] [1 / 2, 1, 2]) ([], world0)))"
proof -
  have b: "[1, 0, 2 :: real] ! 0 - 2 * [1 / 2, 1, 2 :: real] ! 0 = 0"
    by simp
  have "\<forall>d < min (length [1, 0, 2 :: real]) (length [1 / 2, 1, 2 :: real]).
         [1, 0, 2 :: real] ! d - 2 * [1 / 2, 1, 2 :: real] ! d = 0
         \<or> [1, 0, 2 :: real] ! d + 2 * [1 / 2, 1, 2 :: real] ! d = 0 \<longrightarrow>
           d \<in> set (fst (dimension_loop 3 0 (zip [1, 0, 2] [1 / 2, 1, 2]) ([], world0)))"
    using dimension_classification [of 3 "[1, 0, 2]" "[1 / 2, 1, 2]" world0] by blast
  then have m: "0 \<in> set (fst (dimension_loop 3 0 (zip [1, 0, 2] [1 / 2, 1, 2]) ([], world0)))"
    using b by force
  have "dimension_loop 3 0 (zip [1, 0, 2] [1 / 2, 1, 2]) ([], world0) =
     ([0], world0\<lparr>stdout := [DimensionLine 1 3 ''active'' 1 (1 / 2),
                               DimensionLine 2 3 ''inactive'' 0 1,
                               DimensionLine 3 3 ''inactive'' 2 2]\<rparr>)"
    by (simp add: print_def world0_def Let_def eval_nat_numeral)
  with b m show ?thesis by blast
qed

lemma pair_loop_filter:
  "pair_loop ps (acc, w) =
     (acc @ map fst (filter (\<lambda>e. fst (fst e) < snd (fst e) \<and> \<not> contains_zero (snd e)) ps),
      w\<lparr>stdout := stdout w @
          map (\<lambda>e. (if \<not> contains_zero (snd e) then IdentifiedPair else NoPair)
                     (fst (fst e) + 1) (snd (fst e) + 1) (fst (snd e)) (snd (snd e)))
            (filter (\<lambda>e. fst (fst e) < snd (fst e)) ps)\<rparr>)"
proof (induction ps arbitrary: acc w)
  case Nil
  then show ?case by simp
next
  case (Cons e ps)
  obtain d1 d2 mean std where e: "e = ((d1, d2), mean, std)"
    by (metis prod.collapse)
  show ?case
    unfolding e
    by (simp add: Cons.IH Let_def contains_zero_def print_def)
qed

lemma vmap_Inr:
  "vmap f xs = Inr ys \<Longrightarrow> map f xs = map Inr ys"
proof (induction xs arbitrary: ys)
  case Nil
  then show ?case by simp
next
  case (Cons x xs)
  then show ?case
    by (auto split: sum.splits)
qed

lemma vmap_Inr_stat:
  assumes "vmap f xs = Inr ys"
  shows "ys = map (\<lambda>x. projr (f x)) xs \<and> (\<forall>x\<in>set xs. f x = Inr (projr (f x)))"
proof -
  have m: "map f xs = map Inr ys" using assms by (rule vmap_Inr)
  then have len: "length ys = length xs" by (metis length_map)
  have nth: "f (xs ! k) = Inr (ys ! k)" if "k < length xs" for k
    using m that len by (metis nth_map)
  have "ys = map (\<lambda>x. projr (f x)) xs"
    using len nth by (intro nth_equalityI) simp_all
  moreover have "f x = Inr (projr (f x))" if "x \<in> set xs" for x
    using that nth by (metis in_set_conv_nth sum.sel(2))
  ultimately show ?thesis by blast
qed

lemma filter_zip_map:
  "filter (\<lambda>e. P (fst e) (snd e)) (zip xs (map g xs)) =
   map (\<lambda>x. (x, g x)) (filter (\<lambda>x. P x (g x)) xs)"
  by (induction xs) simp_all

lemma pair_stage_result:
  assumes "pair_stage analyze active w = Inr (aqd, w')"
  defines "stat \<equiv> \<lambda>d1 d2. projr (analyze d1 d2)"
  shows "(\<forall>p\<in>set (List.product active active). analyze (fst p) (snd p) = Inr (stat (fst p) (snd p)))
     \<and> aqd = filter (\<lambda>p. fst p < snd p \<and> \<not> contains_zero (stat (fst p) (snd p)))
               (List.product active active)
     \<and> w' = w\<lparr>stdout := stdout w @ map (pair_line stat)
               (filter (\<lambda>p. fst p < snd p) (List.product active active))\<rparr>"
proof (cases "active = []")
  case True
  then show ?thesis using assms(1) by (simp add: pair_stage_def)
next
  case False
  let ?pairs = "List.product active active"
  let ?f = "\<lambda>p. analyze (fst p) (snd p)"
  from assms(1) False obtain stats where v: "vmap ?f ?pairs = Inr stats"
    and r: "pair_loop (zip ?pairs stats) ([], w) = (aqd, w')"
    by (auto simp: pair_stage_def and_then_def Let_def split: sum.splits)
  from vmap_Inr_stat [OF v]
  have st: "stats = map (\<lambda>p. stat (fst p) (snd p)) ?pairs"
    and ok: "\<forall>p\<in>set ?pairs. ?f p = Inr (stat (fst p) (snd p))"
    by (simp_all add: stat_def)
  have f1: "filter (\<lambda>e. fst (fst e) < snd (fst e) \<and> \<not> contains_zero (snd e)) (zip ?pairs stats)
        = map (\<lambda>p. (p, stat (fst p) (snd p)))
            (filter (\<lambda>p. fst p < snd p \<and> \<not> contains_zero (stat (fst p) (snd p))) ?pairs)"
    unfolding st
    using filter_zip_map [of "\<lambda>p s. fst p < snd p \<and> \<not> contains_zero s"
        ?pairs "\<lambda>p. stat (fst p) (snd p)"]
    by simp
  have f2: "filter (\<lambda>e. fst (fst e) < snd (fst e)) (zip ?pairs stats)
        = map (\<lambda>p. (p, stat (fst p) (snd p))) (filter (\<lambda>p. fst p < snd p) ?pairs)"
    unfolding st
    using filter_zip_map [of "\<lambda>p s. fst p < snd p" ?pairs "\<lambda>p. stat (fst p) (snd p)"]
    by simp
  have "aqd = filter (\<lambda>p. fst p < snd p \<and> \<not> contains_zero (stat (fst p) (snd p))) ?pairs"
    using r unfolding pair_loop_filter f1 by (simp add: comp_def)
  moreover have "w' = w\<lparr>stdout := stdout w @ map (pair_line stat)
               (filter (\<lambda>p. fst p < snd p) ?pairs)\<rparr>"
    using r unfolding pair_loop_filter f2 by (auto simp add: comp_def pair_line_def [abs_def])
  ultimately show ?thesis using ok by blast
qed

lemma dimension_loop_distinct:
  "distinct (fst (dimension_loop nd 0 ms ([], w)))"
  by (simp add: dimension_loop_active_dims)

text \<open>
  Claim C5. With \<open>active_dims\<close> as the loop over the dimensions leaves it, a run of the
  pair stage that returns reports pairs of active dimensions only: every pair in
  \<open>active_quad_dims\<close> has \<open>dim1 < dim2\<close>, both active; a line is printed for each pair
  \<open>dim1 < dim2\<close> of active dimensions once, and never for a pair and its reverse; a
  pair is in \<open>active_quad_dims\<close> exactly when its two-sigma interval does not strictly
  contain zero; and with no active dimension the analysis is not run (whatever it is,
  the stage returns the empty list and prints nothing).
\<close>

theorem pairwise_statistics_over_active_dims:
  assumes "active_dims = fst (dimension_loop nd 0 ms ([], w0))"
    and "pair_stage analyze active_dims w = Inr (active_quad_dims, w')"
  shows "(\<forall>p\<in>set active_quad_dims.
            fst p < snd p \<and> fst p \<in> set active_dims \<and> snd p \<in> set active_dims)
       \<and> distinct active_quad_dims
       \<and> (\<exists>stat.
            (\<forall>d1\<in>set active_dims. \<forall>d2\<in>set active_dims. analyze d1 d2 = Inr (stat d1 d2))
          \<and> (\<forall>d1 d2. (d1, d2) \<in> set active_quad_dims \<longleftrightarrow>
                d1 < d2 \<and> d1 \<in> set active_dims \<and> d2 \<in> set active_dims
                \<and> \<not> contains_zero (stat d1 d2))
          \<and> stdout w' = stdout w @ map (pair_line stat)
                (filter (\<lambda>p. fst p < snd p) (List.product active_dims active_dims)))
       \<and> distinct (filter (\<lambda>p. fst p < snd p) (List.product active_dims active_dims))
       \<and> pair_stage analyze [] w = Inr ([], w)"
proof -
  define stat where "stat = (\<lambda>d1 d2. projr (analyze d1 d2))"
  let ?pairs = "List.product active_dims active_dims"
  from pair_stage_result [OF assms(2)]
  have ok: "\<forall>p\<in>set ?pairs. analyze (fst p) (snd p) = Inr (stat (fst p) (snd p))"
    and aqd: "active_quad_dims =
        filter (\<lambda>p. fst p < snd p \<and> \<not> contains_zero (stat (fst p) (snd p))) ?pairs"
    and w': "w' = w\<lparr>stdout := stdout w @ map (pair_line stat)
               (filter (\<lambda>p. fst p < snd p) ?pairs)\<rparr>"
    by (simp_all add: stat_def)
  have d: "distinct active_dims"
    unfolding assms(1) by (rule dimension_loop_distinct)
  then have dp: "distinct ?pairs"
    by (simp add: distinct_product)
  have 1: "\<forall>p\<in>set active_quad_dims.
            fst p < snd p \<and> fst p \<in> set active_dims \<and> snd p \<in> set active_dims"
    unfolding aqd by auto
  have 2: "distinct active_quad_dims"
    unfolding aqd using dp by simp
  have 3: "\<forall>d1\<in>set active_dims. \<forall>d2\<in>set active_dims. analyze d1 d2 = Inr (stat d1 d2)"
    using ok by force
  have 4: "\<forall>d1 d2. (d1, d2) \<in> set active_quad_dims \<longleftrightarrow>
                d1 < d2 \<and> d1 \<in> set active_dims \<and> d2 \<in> set active_dims
                \<and> \<not> contains_zero (stat d1 d2)"
    unfolding aqd by auto
  have 5: "stdout w' = stdout w @ map (pair_line stat) (filter (\<lambda>p. fst p < snd p) ?pairs)"
    unfolding w' by simp
  have 6: "distinct (filter (\<lambda>p. fst p < snd p) ?pairs)"
    using dp by simp
  have 7: "pair_stage analyze [] w = Inr ([], w)"
    by (simp add: pair_stage_def)
  from 1 2 3 4 5 6 7 show ?thesis by blast
qed

theorem pairwise_statistics_over_active_dims_witness:
  "[0, 2] = fst (dimension_loop 3 0 [(1, 1 / 2), (0, 1), (2, 1 / 2)] ([], world0))
   \<and> pair_stage (\<lambda>d1 d2. Inr (real d1 + real d2, 1 / 4)) [0, 2] world0
       = Inr ([(0, 2)], world0\<lparr>stdout := [IdentifiedPair 1 3 2 (1 / 4)]\<rparr>)
   \<and> distinct (filter (\<lambda>p. fst p < snd p) (List.product [0, 2 :: nat] [0, 2]))
   \<and> list_all (\<lambda>p. fst p < snd p \<and> fst p \<in> set [0, 2 :: nat] \<and> snd p \<in> set [0, 2 :: nat])
        [(0, 2)]"
proof -
  have a: "[0, 2] = fst (dimension_loop 3 0 [(1, 1 / 2), (0, 1), (2, 1 / 2)] ([], world0))"
    by (simp add: Let_def)
  have b: "pair_stage (\<lambda>d1 d2. Inr (real d1 + real d2, 1 / 4)) [0, 2] world0
       = Inr ([(0, 2)], world0\<lparr>stdout := [IdentifiedPair 1 3 2 (1 / 4)]\<rparr>)"
    by (simp add: pair_stage_def and_then_def Let_def print_def world0_def eval_nat_numeral)
  from pairwise_statistics_over_active_dims [OF a b]
  have "distinct (filter (\<lambda>p. fst p < snd p) (List.product [0, 2 :: nat] [0, 2]))"
    and "\<forall>p\<in>set [(0 :: nat, 2 :: nat)].
            fst p < snd p \<and> fst p \<in> set [0, 2 :: nat] \<and> snd p \<in> set [0, 2 :: nat]"
    by blast+
  with a b show ?thesis by simp
qed

section \<open>The synthetic data: results and errors\<close>

lemma get_data_assertion:
  "\<not> (S < P \<and> P > 1 \<and> S > 0) \<Longrightarrow> get_data fw N S P sd w = Inl AssertionError"
  by (simp add: get_data_def)

lemma length_draws [simp]: "length (fst (draws d n g)) = n"
  by (induction n arbitrary: g) (simp_all add: case_prod_beta)

lemma set_draws: "(\<And>g. Q (fst (d g))) \<Longrightarrow> x \<in> set (fst (draws d n g)) \<Longrightarrow> Q x"
  by (induction n arbitrary: g) (auto simp: case_prod_beta)

lemma length_draw_rows [simp]: "length (fst (draw_rows d n p g)) = n"
  by (induction n arbitrary: g) (simp_all add: case_prod_beta)

lemma set_draw_rows: "r \<in> set (fst (draw_rows d n p g)) \<Longrightarrow> length r = p"
  by (induction n arbitrary: g) (auto simp: case_prod_beta)

lemma length_binomials [simp]: "length (fst (binomials b ps g)) = length ps"
  by (induction ps arbitrary: g) (simp_all add: case_prod_beta)

lemma set_binomials:
  "(\<And>p g. Q (fst (b p g))) \<Longrightarrow> x \<in> set (fst (binomials b ps g)) \<Longrightarrow> Q x"
  by (induction ps arbitrary: g) (auto simp: case_prod_beta)

lemma sign_of_cases: "b \<le> 1 \<Longrightarrow> sign_of b = 1 \<or> sign_of b = - 1"
  by (cases b) (auto simp: sign_of_def)

lemma get_data_returns:
  assumes "S < P" and "0 < S" and "4 \<le> P"
  shows "\<exists>X Y W w'. get_data fw N S P sd w = Inr ((X, Y, W, 3, [(0, 1), (2, 3)]), w')
     \<and> shape X = (N, nat P) \<and> wf_matrix X \<and> length Y = N \<and> length W = nat S
     \<and> (rng_ok fw \<longrightarrow> (\<forall>y\<in>set Y. y = 1 \<or> y = - 1) \<and> (\<forall>v\<in>set W. 1 \<le> \<bar>v\<bar> \<and> \<bar>v\<bar> \<le> 2.5))
     \<and> files w' = files w \<and> clock w' = clock w \<and> environ w' = environ w
     \<and> (\<exists>a b. stdout w' = stdout w @ [NumberOfOnes a b])"
proof -
  define g0 where "g0 = np_seed fw sd"
  define us where "us = fst (draws (np_rand fw) (nat S) g0)"
  define g1 where "g1 = snd (draws (np_rand fw) (nat S) g0)"
  define bs where "bs = fst (draws (np_binomial fw 0.5) (nat S) g1)"
  define g2 where "g2 = snd (draws (np_binomial fw 0.5) (nat S) g1)"
  define W where "W = map2 (\<lambda>v b. v * sign_of b) (map (\<lambda>u. 1 + 1.5 * u) us) bs"
  define ux where "ux = fst (draw_rows (np_rand fw) N (nat P) g2)"
  define g3 where "g3 = snd (draw_rows (np_rand fw) N (nat P) g2)"
  define bx where "bx = fst (draw_rows (np_binomial fw 0.5) N (nat P) g3)"
  define g4 where "g4 = snd (draw_rows (np_binomial fw 0.5) N (nat P) g3)"
  define X where "X = \<lparr>ncols = nat P,
      rows = map2 (map2 (\<lambda>v b. v * sign_of b)) (map (map (\<lambda>u. u + 0.5)) ux) bx\<rparr>"
  define Y0 where "Y0 = map2 (+) (map (\<lambda>r. sum_list (map2 (*) (take (nat S) r) W)) (rows X))
      (map (\<lambda>v. 3 * v)
         (map2 (-) (map2 (*) (map (\<lambda>r. r ! 0) (rows X)) (map (\<lambda>r. r ! 1) (rows X)))
                   (map2 (*) (map (\<lambda>r. r ! 2) (rows X)) (map (\<lambda>r. r ! 3) (rows X)))))"
  define bY where "bY = fst (binomials (np_binomial fw) (map sigmoid Y0) g4)"
  define g5 where "g5 = snd (binomials (np_binomial fw) (map sigmoid Y0) g4)"
  define Y where "Y = map sign_of bY"
  define w' where "w' = print (NumberOfOnes (length (filter (\<lambda>y. y = 1) Y))
                                        (length (filter (\<lambda>y. y = - 1) Y)))
                      (w\<lparr>np_random := g5\<rparr>)"
  have lenX: "nrows X = N"
    by (simp add: X_def nrows_def ux_def bx_def)
  have lenY0: "length Y0 = N"
    using lenX by (simp add: Y0_def nrows_def)
  have lenY: "length Y = N"
    by (simp add: Y_def bY_def lenY0)
  have cols: "0 < ncols X" "1 < ncols X" "2 < ncols X" "3 < ncols X"
    using assms by (simp_all add: X_def)
  have res: "get_data fw N S P sd w = Inr ((X, Y, W, 3, [(0, 1), (2, 3)]), w')"
    unfolding get_data_def w'_def Y_def g5_def bY_def Y0_def X_def g4_def bx_def g3_def ux_def
      W_def g2_def bs_def g1_def us_def g0_def
    using assms
    by (simp add: Let_def case_prod_beta and_then_def column_def shape_def nrows_def)
  have wf: "wf_matrix X"
  proof -
    have "length r = nat P" if "r \<in> set (rows X)" for r
    proof -
      from that obtain a b where ab: "(a, b) \<in> set (zip (map (map (\<lambda>u. u + 0.5)) ux) bx)"
        and r: "r = map2 (\<lambda>v b. v * sign_of b) a b"
        by (auto simp: X_def)
      from ab have "a \<in> set (map (map (\<lambda>u. u + 0.5)) ux)" and "b \<in> set bx"
        by (auto dest: set_zip_leftD set_zip_rightD)
      then have "length a = nat P" and "length b = nat P"
        using set_draw_rows [of _ "np_rand fw" N "nat P" g2]
          set_draw_rows [of b "np_binomial fw 0.5" N "nat P" g3]
        by (auto simp: ux_def bx_def)
      then show ?thesis
        using r by simp
    qed
    then show ?thesis by (simp add: wf_matrix_def list_all_iff X_def)
  qed
  have lenW: "length W = nat S"
    by (simp add: W_def us_def bs_def)
  have rng: "(\<forall>y\<in>set Y. y = 1 \<or> y = - 1) \<and> (\<forall>v\<in>set W. 1 \<le> \<bar>v\<bar> \<and> \<bar>v\<bar> \<le> 2.5)" if ok: "rng_ok fw"
  proof -
    have b1: "b \<le> 1" if "b \<in> set bY" for b
      using set_binomials [of "\<lambda>x. x \<le> 1" "np_binomial fw" b "map sigmoid Y0" g4] that ok
      by (simp add: rng_ok_def bY_def)
    have y: "\<forall>y\<in>set Y. y = 1 \<or> y = - 1"
      using b1 sign_of_cases by (auto simp: Y_def)
    have u1: "0 \<le> u \<and> u < 1" if "u \<in> set us" for u
      using set_draws [of "\<lambda>x. 0 \<le> x \<and> x < 1" "np_rand fw" u "nat S" g0] that ok
      by (simp add: rng_ok_def us_def)
    have b2: "b \<le> 1" if "b \<in> set bs" for b
      using set_draws [of "\<lambda>x. x \<le> 1" "np_binomial fw 0.5" b "nat S" g1] that ok
      by (simp add: rng_ok_def bs_def)
    have "1 \<le> \<bar>v\<bar> \<and> \<bar>v\<bar> \<le> 2.5" if "v \<in> set W" for v
    proof -
      from that obtain u0 b where "(u0, b) \<in> set (zip (map (\<lambda>u. 1 + 1.5 * u) us) bs)"
        and v: "v = u0 * sign_of b"
        by (auto simp: W_def)
      then have "u0 \<in> set (map (\<lambda>u. 1 + 1.5 * u) us)" and b: "b \<in> set bs"
        by (auto dest: set_zip_leftD set_zip_rightD)
      then obtain u where ub: "u \<in> set us" "b \<in> set bs" "v = (1 + 1.5 * u) * sign_of b"
        using v by auto
      have "\<bar>v\<bar> = 1 + 1.5 * u"
        using sign_of_cases [OF b2 [OF ub(2)]] u1 [OF ub(1)] ub(3)
        by (auto simp: abs_mult)
      then show ?thesis using u1 [OF ub(1)] by simp
    qed
    with y show ?thesis by blast
  qed
  have frame: "files w' = files w" "clock w' = clock w" "environ w' = environ w"
    "\<exists>a b. stdout w' = stdout w @ [NumberOfOnes a b]"
    by (simp_all add: w'_def print_def)
  from res lenX wf lenY lenW rng frame show ?thesis
    by (auto simp: shape_def X_def)
qed

lemma get_data_few_columns:
  assumes "S < P" and "0 < S" and "P < 4"
  shows "get_data fw N S P sd w = Inl IndexError"
proof -
  have "P = 2 \<or> P = 3" using assms by auto
  then show ?thesis
    using assms
    by (auto simp: get_data_def Let_def case_prod_beta and_then_def column_def)
qed

lemma get_data_assertion_iff:
  "get_data fw N S P sd w = Inl AssertionError \<longleftrightarrow> \<not> (S < P \<and> P > 1 \<and> S > 0)"
proof (cases "S < P \<and> P > 1 \<and> S > 0")
  case False
  then show ?thesis by (simp add: get_data_assertion)
next
  case True
  show ?thesis
  proof (cases "P < 4")
    case True
    with \<open>S < P \<and> P > 1 \<and> S > 0\<close> show ?thesis
      by (simp add: get_data_few_columns)
  next
    case False
    with \<open>S < P \<and> P > 1 \<and> S > 0\<close> get_data_returns [of S P fw N sd w] show ?thesis
      by auto
  qed
qed

text \<open>
  Claim C4 has \<open>get_data\<close> return \<open>X\<close> of shape \<open>(N, P)\<close>, \<open>Y\<close> of \<open>N\<close> values
  \<open>\<plusminus>1\<close>, \<open>W\<close> of \<open>S\<close> values of magnitude in \<open>[1, 2.5]\<close>, the coefficient 3 and
  the pairs \<open>[(0, 1), (2, 3)]\<close> for every \<open>N \<ge> 1\<close>, \<open>P > 1\<close>, \<open>0 < S < P\<close>. That is what
  \<open>get_data_returns\<close> above proves from four columns on. With \<open>S = 1\<close> and \<open>P = 2\<close>,
  which the first assertion of \<open>get_data\<close> accepts, \<^verbatim>\<open>X[:, 2]\<close> raises IndexError
  instead, for every \<open>N\<close> and every seed.
\<close>

theorem get_data_two_columns:
  "get_data fw N 1 2 sd w = Inl IndexError"
  by (simp add: get_data_def Let_def case_prod_beta and_then_def column_def)

text \<open>
  Claim C10 has \<open>get_data\<close> raise AssertionError exactly when \<open>S < P\<close>, \<open>P > 1\<close>,
  \<open>S > 0\<close> fails (\<open>get_data_assertion_iff\<close> above), and return for every other
  argument tuple. With \<open>S = 2\<close> and \<open>P = 3\<close> the assertion passes, the data is
  generated, and \<^verbatim>\<open>X[:, 3]\<close> raises IndexError.
\<close>

theorem get_data_three_columns:
  "get_data fw N 2 3 sd w = Inl IndexError"
  by (simp add: get_data_def Let_def case_prod_beta and_then_def column_def)

section \<open>A complete run on a framework\<close>

lemma inner_zero_right: "(\<forall>v\<in>set z. v = 0) \<Longrightarrow> inner x z = 0"
proof (induction x arbitrary: z)
  case Nil
  then show ?case by (simp add: inner_def)
next
  case (Cons a x)
  then show ?case by (cases z) (simp_all add: inner_def)
qed

lemma bcast2_same_shape:
  assumes "nrows A = nrows B" and "ncols A = ncols B"
  shows "\<exists>R. bcast2 f A B = Inr R \<and> nrows R = nrows A \<and> ncols R = ncols A \<and> wf_matrix R
           \<and> (\<forall>i<nrows A. \<forall>j<ncols A. entry R i j = f (entry A i j) (entry B i j))"
proof -
  define R where "R = \<lparr>ncols = ncols A,
      rows = map (\<lambda>i. map (\<lambda>j.
                   f (entry A (if nrows A = 1 then 0 else i) (if ncols A = 1 then 0 else j))
                     (entry B (if nrows B = 1 then 0 else i) (if ncols B = 1 then 0 else j)))
                 [0..<ncols A]) [0..<nrows A]\<rparr>"
  have "bcast2 f A B = Inr R"
    using assms by (simp add: bcast2_def R_def bdim_same)
  moreover have "nrows R = nrows A" "ncols R = ncols A"
    by (simp_all add: R_def nrows_def)
  moreover have "wf_matrix R"
    by (simp add: R_def wf_matrix_def list_all_length)
  moreover have "entry R i j = f (entry A i j) (entry B i j)" if "i < nrows A" "j < ncols A" for i j
    using that assms by (auto simp: R_def entry_def)
  ultimately show ?thesis by blast
qed

lemma bcast2_eye_row:
  assumes "length v = n"
  shows "\<exists>R. bcast2 f (eye n) (row_vector v) = Inr R \<and> nrows R = n \<and> ncols R = n"
proof -
  have "bdim (nrows (eye n)) (nrows (row_vector v)) = Some n"
    by (simp add: bdim_def eye_def row_vector_def nrows_def)
  moreover have "bdim (ncols (eye n)) (ncols (row_vector v)) = Some n"
    using assms by (simp add: bdim_def eye_def row_vector_def)
  ultimately show ?thesis
    by (simp add: bcast2_def nrows_def)
qed

lemma covariances_Inr:
  assumes wf: "wf_matrix X" "wf_matrix probe"
    and cols: "ncols probe = ncols X" "length kappa = ncols X"
  obtains kprobe kX k_xx k_pX k_pp where
    "bcast2 (*) (row_vector kappa) probe = Inr kprobe"
    "nrows kprobe = nrows probe" "ncols kprobe = ncols X" "wf_matrix kprobe"
    "\<forall>i<nrows probe. \<forall>j<ncols X. entry kprobe i j = kappa ! j * entry probe i j"
    "bcast2 (*) (row_vector kappa) X = Inr kX"
    "nrows kX = nrows X" "ncols kX = ncols X" "wf_matrix kX"
    "kernel kX kX eta1 eta2 c default_jitter = Inr k_xx"
    "kernel kprobe kX eta1 eta2 c default_jitter = Inr k_pX"
    "kernel kprobe kprobe eta1 eta2 c default_jitter = Inr k_pp"
    "covariances X probe eta1 eta2 c kappa = Inr (k_xx, k_pX, k_pp)"
proof -
  obtain kprobe where kp: "bcast2 (*) (row_vector kappa) probe = Inr kprobe"
    "nrows kprobe = nrows probe" "ncols kprobe = ncols probe" "wf_matrix kprobe"
    "\<forall>i<nrows probe. \<forall>j<ncols probe. entry kprobe i j = kappa ! j * entry probe i j"
    using bcast2_scale [of kappa probe] cols by auto
  obtain kX where kx: "bcast2 (*) (row_vector kappa) X = Inr kX"
    "nrows kX = nrows X" "ncols kX = ncols X" "wf_matrix kX"
    using bcast2_scale [of kappa X] cols by auto
  obtain k_xx where k1: "kernel kX kX eta1 eta2 c default_jitter = Inr k_xx"
    using kernel_returns [of kX kX] by blast
  have c2: "ncols kprobe = ncols kX" using kp kx cols by simp
  obtain k_pX where k2: "kernel kprobe kX eta1 eta2 c default_jitter = Inr k_pX"
    using kernel_returns [OF c2] by blast
  obtain k_pp where k3: "kernel kprobe kprobe eta1 eta2 c default_jitter = Inr k_pp"
    using kernel_returns [of kprobe kprobe] by blast
  have cov: "covariances X probe eta1 eta2 c kappa = Inr (k_xx, k_pX, k_pp)"
    by (simp add: covariances_def and_then_def kp(1) kx(1) k1 k2 k3)
  show ?thesis
    using that [OF kp(1,2) _ kp(4) _ kx k1 k2 k3 cov] kp(3,5) cols by simp
qed

lemma compute_fw0:
  assumes like: "like_fw0 fw"
    and wf: "wf_matrix X" "wf_matrix probe"
    and cols: "ncols probe = ncols X" and rows2: "nrows probe = 2"
    and lenY: "length Y = nrows X"
  shows "compute_coefficient_mean_variance fw X Y probe singleton_vec 0 0 1
           (replicate (ncols X) 0) (replicate (nrows X) 1) = Inr (0, default_jitter / 2)"
proof -
  let ?N = "nrows X"
  obtain kprobe kX k_xx k_pX k_pp where
    kp: "nrows kprobe = nrows probe" "ncols kprobe = ncols X" "wf_matrix kprobe"
      "\<forall>i<nrows probe. \<forall>j<ncols X. entry kprobe i j = replicate (ncols X) 0 ! j * entry probe i j"
    and kx: "nrows kX = nrows X" "ncols kX = ncols X" "wf_matrix kX"
    and k1: "kernel kX kX 0 0 1 default_jitter = Inr k_xx"
    and k2: "kernel kprobe kX 0 0 1 default_jitter = Inr k_pX"
    and k3: "kernel kprobe kprobe 0 0 1 default_jitter = Inr k_pp"
    and cov: "covariances X probe 0 0 1 (replicate (ncols X) 0) = Inr (k_xx, k_pX, k_pp)"
    using covariances_Inr [OF wf cols, of "replicate (ncols X) 0" 0 0 1] by (metis length_replicate)
  have s1: "nrows k_xx = ?N" "ncols k_xx = ?N"
    using kernel_shape [OF k1] kx by (simp_all add: shape_def)
  have s2: "nrows k_pX = 2" "ncols k_pX = ?N"
    using kernel_shape [OF k2] kx kp rows2 by (simp_all add: shape_def)
  have s3: "nrows k_pp = 2" "ncols k_pp = 2"
    using kernel_shape [OF k3] kp rows2 by (simp_all add: shape_def)
  have e3: "entry k_pp i j = 1 + (if i = j then default_jitter else 0)" if "i < 2" "j < 2" for i j
    using kernel_entry [OF kp(3) kp(3) refl _ _ k3, of i j] that kp(1) rows2 by simp
  have r: "recip (replicate ?N 1) = Inr (replicate ?N 1)"
    by (simp add: recip_def)
  obtain D where D: "bcast2 (*) (eye ?N) (row_vector (replicate ?N 1)) = Inr D"
    "nrows D = ?N" "ncols D = ?N"
    using bcast2_eye_row [of "replicate ?N 1" ?N "(*)"] by auto
  obtain A where A: "bcast2 (+) k_xx D = Inr A"
    using bcast2_same_shape [of k_xx D "(+)"] s1 D by auto
  have v: "vdiv Y (replicate ?N 1) = Inr (map2 (/) Y (replicate ?N 1))"
    using lenY by (simp add: vdiv_def bcast1_def)
  have dm: "dot_mv k_pX (map (\<lambda>v. 0.5 * v) (map (\<lambda>v. 0) (map2 (/) Y (replicate ?N 1))))
        = Inr (map (\<lambda>r. 0) (rows k_pX))"
    using s2 lenY by (simp add: dot_mv_def inner_zero_right)
  have mu: "np_dot singleton_vec (map (\<lambda>r. 0) (rows k_pX)) = Inr 0"
    using s2 by (simp add: np_dot_def singleton_vec_def nrows_def inner_zero_right)
  have tr: "np_transpose \<lparr>ncols = ncols (np_transpose k_pX), rows = []\<rparr>
        = \<lparr>ncols = 0, rows = [[], []]\<rparr>"
    using s2 by (simp add: np_transpose_def nrows_def eval_nat_numeral)
  have mm: "matmul \<lparr>ncols = 0, rows = [[], []]\<rparr> \<lparr>ncols = ncols (np_transpose k_pX), rows = []\<rparr>
        = Inr \<lparr>ncols = 2, rows = [[0, 0], [0, 0]]\<rparr>"
    using s2 by (simp add: matmul_def np_transpose_def nrows_def inner_def eval_nat_numeral)
  have V: "bcast2 (-) k_pp \<lparr>ncols = 2, rows = [[0, 0], [0, 0]]\<rparr>
        = Inr \<lparr>ncols = 2, rows = [[1 + default_jitter, 1], [1, 1 + default_jitter]]\<rparr>"
    using s3 e3 [of 0 0] e3 [of 0 1] e3 [of 1 0] e3 [of 1 1]
    by (simp add: bcast2_def bdim_def nrows_def eval_nat_numeral entry_def)
  have dv: "dot_mv \<lparr>ncols = 2, rows = [[1 + default_jitter, 1], [1, 1 + default_jitter]]\<rparr> singleton_vec
        = Inr [default_jitter / 2, - default_jitter / 2]"
    by (simp add: dot_mv_def singleton_vec_def inner_def field_simps)
  have var: "np_dot singleton_vec [default_jitter / 2, - default_jitter / 2] = Inr (default_jitter / 2)"
    by (simp add: np_dot_def singleton_vec_def inner_def field_simps)
  have cf: "cho_factor fw A = Inr A"
    using like by (simp add: like_fw0_def fw0_def)
  have cs: "cho_solve fw A b = Inr (map (\<lambda>v. 0) b)" for b
    using like by (simp add: like_fw0_def fw0_def)
  have st: "solve_triangular fw A B = Inr \<lparr>ncols = ncols B, rows = []\<rparr>" for B
    using like by (simp add: like_fw0_def fw0_def)
  show ?thesis
    by (simp only: compute_coefficient_mean_variance_def and_then_def cov r D(1) A cf v cs dm mu
        st tr mm V dv var sum.case prod.case)
qed

lemma analyze_dimension_fw0:
  assumes "wf_matrix X" and "length Y = nrows X" and "h_c hyp = 1" and like: "like_fw0 fw"
  shows "analyze_dimension fw [sample0 X] X Y d hyp = Inr (0, sqrt (default_jitter / 2))"
proof -
  have p: "wf_matrix (singleton_probe (ncols X) d)" "ncols (singleton_probe (ncols X) d) = ncols X"
    "nrows (singleton_probe (ncols X) d) = 2"
    using singleton_probe_shape [of "ncols X" d] by simp_all
  have c: "compute_singleton_mean_variance fw X Y d 0 0 1 (replicate (ncols X) 0)
             (replicate (nrows X) 1) = Inr (0, default_jitter / 2)"
    unfolding compute_singleton_mean_variance_def
    by (rule compute_fw0 [OF like assms(1) p(1) p(2) p(3) assms(2)])
  have g: "gaussian_mixture_stats (rounding fw) [0] [default_jitter / 2]
        = Inr (0, default_jitter / 2)"
    using like
    by (simp add: like_fw0_def fw0_def gaussian_mixture_stats_def np_mean_def np_sum_def
        and_then_def)
  have s: "np_sqrt (default_jitter / 2) = Inr (sqrt (default_jitter / 2))"
    by (simp add: np_sqrt_def default_jitter_def)
  show ?thesis
    by (simp add: analyze_dimension_def sample0_def assms(3) c and_then_def g s)
qed

lemma stride_single: "stride k [x] = [x]"
  by simp

lemma run_inference_fw0:
  assumes "0 < thinning a" and like: "like_fw0 fw"
  shows "\<exists>w'. run_inference fw a k X Y hyp w = Inr ([sample0 X], w')"
proof -
  obtain w1 where "mcmc_run fw
      \<lparr>cfg_max_tree_depth = mtd a, cfg_num_warmup = num_warmup a,
        cfg_num_samples = num_samples a, cfg_num_chains = num_chains a,
        cfg_progress_bar = (''NUMPYRO_SPHINXBUILD'' \<notin> set (environ w))\<rparr> k X Y hyp w
      = Inr ([sample0 X], w1)"
    using like unfolding like_fw0_def by blast
  moreover have "get_samples fw [sample0 X] = [sample0 X]"
    using like by (simp add: like_fw0_def fw0_def)
  ultimately show ?thesis
    using assms(1) by (simp add: run_inference_def and_then_def Let_def thin_def)
qed

lemma vmap_const:
  "(\<And>x. x \<in> set xs \<Longrightarrow> f x = Inr c) \<Longrightarrow> vmap f xs = Inr (map (\<lambda>x. c) xs)"
  by (induction xs) simp_all

lemma dimension_loop_all_inactive:
  assumes "0 < s"
  shows "dimension_loop nd 0 (map (\<lambda>x. (0, s)) xs) ([], w) =
           ([], w\<lparr>stdout := stdout w @
                 map (\<lambda>d. DimensionLine (d + 1) nd ''inactive'' 0 s) [0..<length xs]\<rparr>)"
proof -
  have cz: "contains_zero (0, s)"
    using assms by (simp add: contains_zero_def)
  have "fst (dimension_loop nd 0 (map (\<lambda>x. (0, s)) xs) ([], w)) = []"
    unfolding dimension_loop_active_dims using cz by simp
  moreover have "snd (dimension_loop nd 0 (map (\<lambda>x. (0, s)) xs) ([], w)) =
      w\<lparr>stdout := stdout w @
                 map (\<lambda>d. DimensionLine (d + 1) nd ''inactive'' 0 s) [0..<length xs]\<rparr>"
    unfolding dimension_loop_stdout using cz by (simp add: dimension_line_def)
  ultimately show ?thesis
    by (metis prod.collapse)
qed

lemma main_body_fw0:
  assumes "0 < active_dimensions a" and "active_dimensions a < num_dimensions a"
    and "4 \<le> num_dimensions a" and "0 < thinning a"
    and like: "like_fw0 fw"
  shows "\<exists>r w'. main_body fw a N (res, w) = Inr (r, w')"
proof -
  obtain X Y W w1 where g: "get_data fw N (active_dimensions a) (num_dimensions a) (seed a) w
      = Inr ((X, Y, W, 3, [(0, 1), (2, 3)]), w1)"
    and sh: "shape X = (N, nat (num_dimensions a))" and wf: "wf_matrix X" and lenY: "length Y = N"
    using get_data_returns [OF assms(2,1,3), of fw N "seed a" w] by blast
  have n: "nrows X = N" using sh by (simp add: shape_def)
  define hyp where "hyp = \<lparr>h_expected_sparsity = active_dimensions a,
                 h_alpha1 = 2, h_beta1 = 1, h_sigma = 2,
                 h_alpha2 = 2, h_beta2 = 1, h_c = 1\<rparr>"
  define s where "s = sqrt (default_jitter / 2)"
  have spos: "0 < s" by (simp add: s_def default_jitter_def)
  obtain w2 where ri: "run_inference fw a (PRNGKey fw (seed a)) X Y hyp w1
      = Inr ([sample0 X], w2)"
    using run_inference_fw0 [OF assms(4) like] by blast
  have an: "vmap (\<lambda>dimn. analyze_dimension fw [sample0 X] X Y dimn hyp)
              [0..<nat (num_dimensions a)] = Inr (map (\<lambda>x. (0, s)) [0..<nat (num_dimensions a)])"
    by (rule vmap_const) (simp add: analyze_dimension_fw0 wf lenY n hyp_def s_def like)
  have zz: "zip (map fst (map (\<lambda>x. (0, s)) xs)) (map snd (map (\<lambda>x. (0, s)) xs))
        = map (\<lambda>x. (0, s)) xs" for xs :: "nat list"
    by (induction xs) simp_all
  show ?thesis
    unfolding main_body_def
    by (simp add: g and_then_def hyp_def [symmetric] ri an Let_def zz
        dimension_loop_all_inactive [OF spos] pair_stage_def del: map_map)
qed

lemma main_fw0:
  assumes "0 < active_dimensions a" and "active_dimensions a < num_dimensions a"
    and "4 \<le> num_dimensions a" and "0 < thinning a"
    and like: "like_fw0 fw"
  shows "\<exists>r w'. main fw a w = Inr (r, w')"
proof -
  obtain r w' where "main_body fw a 200 (\<lparr>res_args = a, res_runs = Map.empty\<rparr>, w) = Inr (r, w')"
    using main_body_fw0 [OF assms] by blast
  then show ?thesis
    by (simp add: main_def and_then_def)
qed

lemma like_fw0_fw0: "like_fw0 fw0"
  by (simp add: like_fw0_def fw0_def sample0_def)

lemma like_fw0_fw1: "like_fw0 fw1"
  by (simp add: like_fw0_def fw1_def fw0_def)

section \<open>The argument num_data\<close>

lemma run_inference_num_data:
  "run_inference fw (a\<lparr>num_data := n\<rparr>) k X Y h w = run_inference fw a k X Y h w"
  by (simp add: run_inference_def)

lemma main_body_num_data:
  "main_body fw (a\<lparr>num_data := n\<rparr>) N st = main_body fw a N st"
  by (simp add: main_body_def run_inference_num_data)

lemma main_body_res_args:
  "main_body fw a N (res\<lparr>res_args := x\<rparr>, w) =
     (case main_body fw a N (res, w) of
        Inl e \<Rightarrow> Inl e
      | Inr (r, w') \<Rightarrow> Inr (r\<lparr>res_args := x\<rparr>, w'))"
  by (simp add: main_body_def and_then_def Let_def split: sum.splits prod.splits)

lemma main_body_keeps_args:
  "main_body fw a N (res, w) = Inr (r, w') \<Longrightarrow> res_args r = res_args res"
  by (auto simp: main_body_def and_then_def Let_def split: sum.splits prod.splits)

lemma main_loop_num_data:
  "main_loop fw (a\<lparr>num_data := n\<rparr>) Ns st = main_loop fw a Ns st"
  by (induction Ns arbitrary: st)
     (auto simp: main_body_num_data and_then_def split: sum.splits)

lemma main_loop_res_args:
  "main_loop fw a Ns (res\<lparr>res_args := x\<rparr>, w) =
     (case main_loop fw a Ns (res, w) of
        Inl e \<Rightarrow> Inl e
      | Inr (r, w') \<Rightarrow> Inr (r\<lparr>res_args := x\<rparr>, w'))"
proof (induction Ns arbitrary: res w)
  case Nil
  then show ?case by simp
next
  case (Cons N Ns)
  show ?case
    by (simp add: and_then_def main_body_res_args Cons.IH split: sum.splits prod.splits)
qed

lemma main_loop_keeps_args:
  "main_loop fw a Ns (res, w) = Inr (r, w') \<Longrightarrow> res_args r = res_args res"
proof (induction Ns arbitrary: res w)
  case Nil
  then show ?case by simp
next
  case (Cons N Ns)
  then show ?case
    by (auto simp: and_then_def split: sum.splits dest: main_body_keeps_args)
qed

lemma main_num_data:
  "main fw (a\<lparr>num_data := n\<rparr>) w =
     (case main fw a w of
        Inl e \<Rightarrow> Inl e
      | Inr (r, w') \<Rightarrow>
          Inr (r\<lparr>res_args := a\<lparr>num_data := n\<rparr>\<rparr>,
               w'\<lparr>stdout := butlast (stdout w')
                     @ [PrintResults (r\<lparr>res_args := a\<lparr>num_data := n\<rparr>\<rparr>)]\<rparr>))"
proof -
  have "\<lparr>res_args = a\<lparr>num_data := n\<rparr>, res_runs = Map.empty\<rparr>
        = \<lparr>res_args = a, res_runs = Map.empty\<rparr>\<lparr>res_args := a\<lparr>num_data := n\<rparr>\<rparr>"
    by simp
  then show ?thesis
    unfolding main_def Let_def main_loop_num_data
    by (simp only: main_loop_res_args)
       (auto simp: and_then_def print_def split: sum.splits)
qed

lemma main_result:
  "main fw a w = Inr (r, w') \<Longrightarrow>
   res_args r = a \<and> stdout w' \<noteq> [] \<and> last (stdout w') = PrintResults r"
  by (auto simp: main_def and_then_def print_def split: sum.splits
      dest: main_body_keeps_args)

section \<open>Files and output of a run\<close>

lemma frame_refl: "frame w w"
  by (simp add: frame_def)

lemma frame_trans [trans]: "frame w w1 \<Longrightarrow> frame w1 w2 \<Longrightarrow> frame w w2"
  by (auto simp: frame_def)

lemma frame_print: "frame w (print l w)"
  by (simp add: frame_def print_def)

lemma get_data_frame:
  "get_data fw N S P sd w = Inr (x, w') \<Longrightarrow> frame w w'"
  by (auto simp: get_data_def Let_def case_prod_beta and_then_def column_def frame_def print_def
      split: if_splits)

lemma run_inference_frame:
  assumes "sampler_ok fw" and "run_inference fw a k X Y h w = Inr (s, w')"
  shows "frame w w'"
proof -
  from assms(2) obtain m w1 where m: "mcmc_run fw
      \<lparr>cfg_max_tree_depth = mtd a, cfg_num_warmup = num_warmup a,
        cfg_num_samples = num_samples a, cfg_num_chains = num_chains a,
        cfg_progress_bar = (''NUMPYRO_SPHINXBUILD'' \<notin> set (environ w))\<rparr> k X Y h w = Inr (m, w1)"
    and w': "w' = print (McmcElapsedTime (clock (print_summary fw m w1) - clock w))
                   (print_summary fw m w1)"
    by (auto simp: run_inference_def and_then_def Let_def split: sum.splits)
  have "frame w w1" using assms(1) m by (auto simp: sampler_ok_def)
  moreover have "frame w1 (print_summary fw m w1)" using assms(1) by (simp add: sampler_ok_def)
  ultimately show ?thesis
    unfolding w' by (blast intro: frame_trans frame_print)
qed

lemma dimension_loop_frame:
  "dimension_loop nd 0 ms ([], w) = (ad, w') \<Longrightarrow> frame w w'"
  using dimension_loop_stdout [of nd ms w] by (auto simp: frame_def)

lemma pair_stage_frame:
  "pair_stage f ad w = Inr (q, w') \<Longrightarrow> frame w w'"
  using pair_stage_result [of f ad w q w'] by (auto simp: frame_def)

lemma main_body_frame:
  assumes "sampler_ok fw" and "main_body fw a N (res, w) = Inr (r, w')"
  shows "frame w w'"
proof -
  from assms(2) obtain x w1 k X Y h s w2 nd ms l1 ad w4 f l2 l3 l4 q w8 l5 where
    g: "get_data fw N (active_dimensions a) (num_dimensions a) (seed a) w = Inr (x, w1)"
    and ri: "run_inference fw a k X Y h w1 = Inr (s, w2)"
    and dl: "dimension_loop nd 0 ms ([], print l1 w2) = (ad, w4)"
    and ps: "pair_stage f ad (print l4 (print l3 (print l2 w4))) = Inr (q, w8)"
    and w': "w' = print l5 w8"
    unfolding main_body_def and_then_def Let_def
    by (auto split: sum.splits prod.splits)
  have "frame w w1" using g by (rule get_data_frame)
  also have "frame w1 w2" using assms(1) ri by (rule run_inference_frame)
  also have "frame w2 (print l1 w2)" by (rule frame_print)
  also have "frame (print l1 w2) w4" using dl by (rule dimension_loop_frame)
  also have "frame w4 (print l2 w4)" by (rule frame_print)
  also have "frame (print l2 w4) (print l3 (print l2 w4))" by (rule frame_print)
  also have "frame (print l3 (print l2 w4)) (print l4 (print l3 (print l2 w4)))" by (rule frame_print)
  also have "frame (print l4 (print l3 (print l2 w4))) w8" using ps by (rule pair_stage_frame)
  also have "frame w8 w'" unfolding w' by (rule frame_print)
  finally show ?thesis .
qed

lemma main_loop_frame:
  assumes "sampler_ok fw"
  shows "main_loop fw a Ns (res, w) = Inr (r, w') \<Longrightarrow> frame w w'"
proof (induction Ns arbitrary: res w)
  case Nil
  then show ?case by (simp add: frame_refl)
next
  case (Cons N Ns)
  from Cons.prems obtain r1 w1 where b: "main_body fw a N (res, w) = Inr (r1, w1)"
    and l: "main_loop fw a Ns (r1, w1) = Inr (r, w')"
    by (auto simp: and_then_def split: sum.splits)
  show ?case
    using main_body_frame [OF assms b] Cons.IH [OF l] by (rule frame_trans)
qed

lemma main_frame:
  assumes "sampler_ok fw" and "main fw a w = Inr (r, w')"
  shows "frame w w'"
proof -
  from assms(2) obtain w1 where l: "main_loop fw a [200] (\<lparr>res_args = a, res_runs = Map.empty\<rparr>, w) = Inr (r, w1)"
    and w': "w' = print (PrintResults r) w1"
    by (auto simp: main_def and_then_def Let_def split: sum.splits simp del: main_loop.simps)
  show ?thesis
    unfolding w' using main_loop_frame [OF assms(1) l] frame_print by (rule frame_trans)
qed

lemma sampler_ok_fw0: "sampler_ok fw0"
  by (simp add: sampler_ok_def fw0_def frame_def)

lemma sampler_ok_fw1: "sampler_ok fw1"
  by (simp add: sampler_ok_def fw1_def fw0_def frame_def)

lemma args0_ok:
  "0 < active_dimensions (args0\<lparr>num_data := n\<rparr>)"
  "active_dimensions (args0\<lparr>num_data := n\<rparr>) < num_dimensions (args0\<lparr>num_data := n\<rparr>)"
  "4 \<le> num_dimensions (args0\<lparr>num_data := n\<rparr>)"
  "0 < thinning (args0\<lparr>num_data := n\<rparr>)"
  by (simp_all add: args0_def)

lemma get_data_stderr:
  "get_data fw N S P sd w = Inr (x, w') \<Longrightarrow> stderr w' = stderr w"
  by (auto simp: get_data_def Let_def case_prod_beta and_then_def column_def print_def
      split: if_splits)

lemma print_stderr: "stderr (print l w) = stderr w"
  by (simp add: print_def)

lemma dimension_loop_stderr:
  "dimension_loop nd 0 ms ([], w) = (ad, w') \<Longrightarrow> stderr w' = stderr w"
  using dimension_loop_stdout [of nd ms w] by auto

lemma pair_stage_stderr:
  "pair_stage f ad w = Inr (q, w') \<Longrightarrow> stderr w' = stderr w"
  using pair_stage_result [of f ad w q w'] by auto

lemma run_inference_stderr:
  assumes "run_inference fw a k X Y h w = Inr (s, w')"
  shows "\<exists>cfg m w2. cfg_progress_bar cfg = (''NUMPYRO_SPHINXBUILD'' \<notin> set (environ w))
           \<and> mcmc_run fw cfg k X Y h w = Inr (m, w2)
           \<and> stderr w' = stderr (print_summary fw m w2)"
proof -
  let ?cfg = "\<lparr>cfg_max_tree_depth = mtd a, cfg_num_warmup = num_warmup a,
        cfg_num_samples = num_samples a, cfg_num_chains = num_chains a,
        cfg_progress_bar = (''NUMPYRO_SPHINXBUILD'' \<notin> set (environ w))\<rparr>"
  from assms obtain m w2 where m: "mcmc_run fw ?cfg k X Y h w = Inr (m, w2)"
    and w': "w' = print (McmcElapsedTime (clock (print_summary fw m w2) - clock w))
                   (print_summary fw m w2)"
    by (auto simp: run_inference_def and_then_def Let_def split: sum.splits)
  have "cfg_progress_bar ?cfg = (''NUMPYRO_SPHINXBUILD'' \<notin> set (environ w))"
    by simp
  moreover have "stderr w' = stderr (print_summary fw m w2)"
    unfolding w' by (rule print_stderr)
  ultimately show ?thesis using m by blast
qed

lemma main_body_stderr:
  assumes "main_body fw a N (res, w) = Inr (r, w')"
  shows "\<exists>cfg k X Y h w1 m w2.
           stderr w1 = stderr w
         \<and> cfg_progress_bar cfg = (''NUMPYRO_SPHINXBUILD'' \<notin> set (environ w))
         \<and> mcmc_run fw cfg k X Y h w1 = Inr (m, w2)
         \<and> stderr w' = stderr (print_summary fw m w2)"
proof -
  from assms obtain x w1 k X Y h s w2 nd ms l1 ad w4 f l2 l3 l4 q w8 l5 where
    g: "get_data fw N (active_dimensions a) (num_dimensions a) (seed a) w = Inr (x, w1)"
    and ri: "run_inference fw a k X Y h w1 = Inr (s, w2)"
    and dl: "dimension_loop nd 0 ms ([], print l1 w2) = (ad, w4)"
    and ps: "pair_stage f ad (print l4 (print l3 (print l2 w4))) = Inr (q, w8)"
    and w': "w' = print l5 w8"
    unfolding main_body_def and_then_def Let_def
    by (auto split: sum.splits prod.splits)
  have e1: "stderr w1 = stderr w" using g by (rule get_data_stderr)
  have env: "environ w1 = environ w" using get_data_frame [OF g] by (simp add: frame_def)
  from run_inference_stderr [OF ri] obtain cfg m wa where
    c: "cfg_progress_bar cfg = (''NUMPYRO_SPHINXBUILD'' \<notin> set (environ w1))"
    and m: "mcmc_run fw cfg k X Y h w1 = Inr (m, wa)"
    and e2: "stderr w2 = stderr (print_summary fw m wa)"
    by blast
  have "stderr w4 = stderr w2"
    using dimension_loop_stderr [OF dl] by (simp add: print_stderr)
  moreover have "stderr w8 = stderr w4"
    using pair_stage_stderr [OF ps] by (simp add: print_stderr)
  ultimately have "stderr w' = stderr (print_summary fw m wa)"
    unfolding w' using e2 by (simp add: print_stderr)
  with e1 c m env have "stderr w1 = stderr w
         \<and> cfg_progress_bar cfg = (''NUMPYRO_SPHINXBUILD'' \<notin> set (environ w))
         \<and> mcmc_run fw cfg k X Y h w1 = Inr (m, wa)
         \<and> stderr w' = stderr (print_summary fw m wa)"
    by simp
  then show ?thesis by blast
qed

lemma main_stderr:
  assumes "main fw a w = Inr (r, w')"
  shows "\<exists>cfg k X Y h w1 m w2.
           stderr w1 = stderr w
         \<and> cfg_progress_bar cfg = (''NUMPYRO_SPHINXBUILD'' \<notin> set (environ w))
         \<and> mcmc_run fw cfg k X Y h w1 = Inr (m, w2)
         \<and> stderr w' = stderr (print_summary fw m w2)"
proof -
  from assms obtain w9 where b: "main_body fw a 200 (\<lparr>res_args = a, res_runs = Map.empty\<rparr>, w) = Inr (r, w9)"
    and w': "w' = print (PrintResults r) w9"
    by (auto simp: main_def and_then_def Let_def split: sum.splits)
  from main_body_stderr [OF b] show ?thesis
    unfolding w' by (simp add: print_stderr)
qed

text \<open>
  Claim C7, amended. A complete run of \<open>main\<close> writes no file, the \<^verbatim>\<open>pickle.dump\<close>
  being only a comment in the script, and what \<open>main\<close> prints goes to the standard
  output. Beside it there is what the sampler shows on the standard error: \<open>main\<close>
  writes nothing there itself, but it asks the sampler for a progress bar unless the
  environment has \<^verbatim>\<open>NUMPYRO_SPHINXBUILD\<close>. So, whenever the two calls into the sampler
  change no file and no environment variable and only add to the standard output, the
  world \<open>main\<close> leaves has the files and the environment it found, a standard output
  that continues the one it found, and the standard error that one call of the sampler,
  made with that progress-bar flag, and its summary have left.
\<close>

theorem main_writes_no_file:
  assumes "sampler_ok fw" and "main fw a w = Inr (r, w')"
  shows "files w' = files w \<and> environ w' = environ w \<and> (\<exists>out. stdout w' = stdout w @ out)
       \<and> (\<exists>cfg k X Y h w1 m w2.
             stderr w1 = stderr w
           \<and> cfg_progress_bar cfg = (''NUMPYRO_SPHINXBUILD'' \<notin> set (environ w))
           \<and> mcmc_run fw cfg k X Y h w1 = Inr (m, w2)
           \<and> stderr w' = stderr (print_summary fw m w2))"
  using main_frame [OF assms] main_stderr [OF assms(2)] by (simp add: frame_def)

theorem main_writes_no_file_witness:
  "sampler_ok fw1 \<and> (\<exists>r w'. main fw1 args0 world0 = Inr (r, w') \<and> files w' = Map.empty
     \<and> environ w' = [] \<and> stderr w' = [''sample: 100%''])"
proof -
  obtain r w' where m: "main fw1 (args0\<lparr>num_data := 0\<rparr>) world0 = Inr (r, w')"
    using main_fw0 [OF args0_ok like_fw0_fw1] by blast
  then have m0: "main fw1 args0 world0 = Inr (r, w')"
    by (simp add: args0_def)
  from main_writes_no_file [OF sampler_ok_fw1 m0]
  have "files w' = Map.empty" "environ w' = []" "stderr w' = [''sample: 100%'']"
    by (auto simp: world0_def fw1_def fw0_def)
  with m0 sampler_ok_fw1 show ?thesis by blast
qed

text \<open>
  Claim C7 as stated, that what is printed to the standard output is the only
  externally visible output of a complete run, fails with a sampler that shows the
  progress bar it is asked for on the standard error: with the default command line in
  a world without \<^verbatim>\<open>NUMPYRO_SPHINXBUILD\<close>, the run on \<open>fw1\<close> completes and leaves a line
  on the standard error, which was empty.
\<close>

theorem main_progress_bar_on_stderr:
  "stderr world0 = [] \<and> ''NUMPYRO_SPHINXBUILD'' \<notin> set (environ world0)
   \<and> (case main fw1 args0 world0 of
         Inl e \<Rightarrow> None
       | Inr rw \<Rightarrow> Some (stderr (snd rw))) = Some [''sample: 100%'']"
proof -
  obtain r w' where m: "main fw1 (args0\<lparr>num_data := 0\<rparr>) world0 = Inr (r, w')"
    using main_fw0 [OF args0_ok like_fw0_fw1] by blast
  then have m0: "main fw1 args0 world0 = Inr (r, w')"
    by (simp add: args0_def)
  from main_stderr [OF m0]
  have "stderr w' = [''sample: 100%'']"
    by (auto simp: world0_def fw1_def fw0_def)
  with m0 show ?thesis
    by (simp add: world0_def)
qed

text \<open>
  Claim C9, amended. \<^verbatim>\<open>main\<close> reads \<^verbatim>\<open>args.num_data\<close> nowhere, the number of data points
  being fixed to 200: two runs that differ only in \<open>num_data\<close> fail with the same error,
  or both return, with the same data, samples, statistics and printed lines but the
  last. The dictionary \<open>results\<close> holds \<open>args\<close> itself, so the two dictionaries differ
  in that entry, and so does the last line printed, which is the dictionary.
\<close>

theorem num_data_only_in_args:
  "main fw (a\<lparr>num_data := n\<rparr>) w =
     (case main fw a w of
        Inl e \<Rightarrow> Inl e
      | Inr (r, w') \<Rightarrow>
          Inr (r\<lparr>res_args := a\<lparr>num_data := n\<rparr>\<rparr>,
               w'\<lparr>stdout := butlast (stdout w')
                     @ [PrintResults (r\<lparr>res_args := a\<lparr>num_data := n\<rparr>\<rparr>)]\<rparr>))
   \<and> (\<forall>r w'. main fw a w = Inr (r, w') \<longrightarrow>
         res_args r = a \<and> stdout w' \<noteq> [] \<and> last (stdout w') = PrintResults r)"
  using main_num_data [where fw = fw and a = a and n = n and w = w] main_result [of fw a w] by blast

theorem num_data_only_in_args_witness:
  "\<exists>r w'. main fw0 args0 world0 = Inr (r, w') \<and> res_args r = args0
     \<and> last (stdout w') = PrintResults r
     \<and> main fw0 (args0\<lparr>num_data := 1\<rparr>) world0 =
         Inr (r\<lparr>res_args := args0\<lparr>num_data := 1\<rparr>\<rparr>,
              w'\<lparr>stdout := butlast (stdout w')
                    @ [PrintResults (r\<lparr>res_args := args0\<lparr>num_data := 1\<rparr>\<rparr>)]\<rparr>)"
proof -
  obtain r w' where m: "main fw0 (args0\<lparr>num_data := 0\<rparr>) world0 = Inr (r, w')"
    using main_fw0 [OF args0_ok like_fw0_fw0] by blast
  then have m0: "main fw0 args0 world0 = Inr (r, w')"
    by (simp add: args0_def)
  from num_data_only_in_args [where fw = fw0 and a = args0 and n = 1 and w = world0] m0
  show ?thesis by simp
qed

text \<open>
  Claim C9 as stated, that \<^verbatim>\<open>--num-data\<close> has no effect on what the program produces,
  fails: on \<open>fw0\<close>, with the default command line, the runs with \<open>num_data = 0\<close> and
  with \<open>num_data = 1\<close> return different dictionaries and print different last lines.
\<close>

theorem num_data_changes_output:
  "main fw0 (args0\<lparr>num_data := 0\<rparr>) world0 \<noteq> main fw0 (args0\<lparr>num_data := 1\<rparr>) world0"
proof
  assume eq: "main fw0 (args0\<lparr>num_data := 0\<rparr>) world0 = main fw0 (args0\<lparr>num_data := 1\<rparr>) world0"
  obtain r w' where m: "main fw0 (args0\<lparr>num_data := 0\<rparr>) world0 = Inr (r, w')"
    using main_fw0 [OF args0_ok like_fw0_fw0] by blast
  have "res_args r = args0\<lparr>num_data := 0\<rparr>"
    using main_result [OF m] by simp
  moreover have "res_args r = args0\<lparr>num_data := 1\<rparr>"
    using main_result [of fw0 "args0\<lparr>num_data := 1\<rparr>" world0 r w'] eq m by simp
  ultimately have "args0\<lparr>num_data := 0\<rparr> = args0\<lparr>num_data := 1\<rparr>"
    by simp
  then have "num_data (args0\<lparr>num_data := 0\<rparr>) = num_data (args0\<lparr>num_data := 1\<rparr>)"
    by (rule arg_cong)
  then show False by simp
qed

end
